theory Spec2Isabelle
  imports Complex_Main "HOL-Library.Char_ord" "HOL-Library.List_Lexorder"
begin

section \<open>Last-mile delivery dashboard (app.py)\<close>

text \<open>
  The dashboard is one linear script: load a CSV, resolve columns, clean, derive two
  features, filter, aggregate and render.  Each stage of the script is a function here,
  named after the variable or function of the script it computes.

  Modelling conventions.
  \<^item> A cell of a pandas column is an \<open>option\<close>: \<open>None\<close> is the missing value (NaN).
  \<^item> A Python \<open>str\<close> is a \<open>string\<close>; \<open>lower\<close> and \<open>strip\<close> are modelled on ASCII
    (characters outside ASCII are left alone and are never whitespace).
  \<^item> A float is a \<open>real\<close>: arithmetic is exact, and the only non-finite value is the
    missing one.  The rounding of IEEE doubles is outside the model.
\<close>

subsection \<open>Python strings: \<open>str.lower\<close>, \<open>str.strip\<close>, truthiness\<close>

definition lower_char :: "char \<Rightarrow> char" where
  "lower_char c =
     (case map_of (zip ''ABCDEFGHIJKLMNOPQRSTUVWXYZ'' ''abcdefghijklmnopqrstuvwxyz'') c of
        None \<Rightarrow> c
      | Some l \<Rightarrow> l)"

definition lower :: "string \<Rightarrow> string" where
  "lower s = map lower_char s"

text \<open>The ASCII characters for which \<open>str.isspace\<close> holds: TAB, LF, VT, FF, CR,
  the separators 0x1C to 0x1F, and the blank.\<close>

definition isspace :: "char \<Rightarrow> bool" where
  "isspace c =
     (c \<in> set [CHR 0x09, CHR 0x0A, CHR 0x0B, CHR 0x0C, CHR 0x0D,
                CHR 0x1C, CHR 0x1D, CHR 0x1E, CHR 0x1F, CHR 0x20])"

definition strip :: "string \<Rightarrow> string" where
  "strip s = rev (dropWhile isspace (rev (dropWhile isspace s)))"

text \<open>\<open>if found:\<close> on a value that is \<open>None\<close> or a string: \<open>None\<close> and the empty
  string are false.\<close>

definition truthy :: "string option \<Rightarrow> bool" where
  "truthy found = (case found of None \<Rightarrow> False | Some s \<Rightarrow> s \<noteq> [])"

subsection \<open>Flexible column detection\<close>

text \<open>The \<open>variants\<close> dictionary, in insertion order.\<close>

definition variants :: "(string \<times> string list) list" where
  "variants =
    [(''delivery_time'', [''Delivery_Time'', ''Delivery Time'', ''Time Taken'', ''delivery_time'']),
     (''weather'', [''Weather'', ''weather'']),
     (''traffic'', [''Traffic'', ''traffic'']),
     (''vehicle'', [''Vehicle'', ''vehicle'', ''Vehicle Type'']),
     (''agent_age'', [''Agent_Age'', ''Agent Age'', ''Age'']),
     (''agent_rating'', [''Agent_Rating'', ''Agent Rating'', ''Rating'']),
     (''area'', [''Area'', ''area'', ''Region'']),
     (''category'', [''Category'', ''category'', ''Product Category''])]"

text \<open>
  \<^verbatim>\<open>
  for c in df_cols:
      if c.lower().strip() == o.lower().strip():
          found = c
          break
  \<close>
  The inner loop of \<open>find_col\<close>; \<open>found\<close> is threaded through, since the loop leaves it
  as it was when no header matches.
\<close>

fun scan_cols :: "string \<Rightarrow> string list \<Rightarrow> string option \<Rightarrow> string option" where
  "scan_cols opt [] found = found"
| "scan_cols opt (c # cs) found =
     (if strip (lower c) = strip (lower opt) then Some c else scan_cols opt cs found)"

text \<open>
  \<^verbatim>\<open>
  for o in options:
      <inner loop>
      if found: break
  \<close>
\<close>

fun scan_options :: "string list \<Rightarrow> string list \<Rightarrow> string option \<Rightarrow> string option" where
  "scan_options [] df_cols found = found"
| "scan_options (opt # opts) df_cols found =
     (let found' = scan_cols opt df_cols found
      in if truthy found' then found' else scan_options opts df_cols found')"

text \<open>\<open>find_col\<close>: one entry per key of \<open>variants\<close>, in its order; the dictionary
  \<open>mapping\<close> is the association list, read with \<open>map_of\<close>.\<close>

definition find_col :: "(string \<times> string list) list \<Rightarrow> string list \<Rightarrow> (string \<times> string option) list" where
  "find_col vs df_cols = map (\<lambda>(key, options). (key, scan_options options df_cols None)) vs"

subsection \<open>The loaded table\<close>

text \<open>
  \<open>pd.read_csv(DATA_PATH, dtype=str)\<close> gives a table of text cells: the header names in file
  order and the rows, each a list of cells (a cell that the reader found empty is already
  missing).  A row shorter than the header is padded with missing cells by the reader, which
  \<open>cell_at\<close> writes out.  The row labels are \<open>0, 1, 2, ...\<close> (a \<open>RangeIndex\<close>).
\<close>

type_synonym cell = "string option"

record dataframe =
  columns :: "string list"
  records :: "cell list list"

definition cell_at :: "cell list \<Rightarrow> nat \<Rightarrow> cell" where
  "cell_at r i = (if i < length r then r ! i else None)"

text \<open>\<open>df_raw.columns = df_raw.columns.str.strip()\<close>\<close>

definition strip_columns :: "dataframe \<Rightarrow> dataframe" where
  "strip_columns df = df\<lparr>columns := map strip (columns df)\<rparr>"

text \<open>\<open>df[col].astype(str).replace({"": np.nan, "nan": np.nan, "None": np.nan})\<close>, for every
  column: \<open>astype(str)\<close> turns the missing value into the text \<open>nan\<close>, and \<open>replace\<close> turns
  the three listed texts into the missing value.\<close>

definition astype_str :: "cell \<Rightarrow> string" where
  "astype_str v = (case v of None \<Rightarrow> ''nan'' | Some s \<Rightarrow> s)"

definition replace_missing :: "string \<Rightarrow> cell" where
  "replace_missing s = (if s = [] \<or> s = ''nan'' \<or> s = ''None'' then None else Some s)"

definition normalize_missing :: "dataframe \<Rightarrow> dataframe" where
  "normalize_missing df = df\<lparr>records := map (map (\<lambda>v. replace_missing (astype_str v))) (records df)\<rparr>"

subsection \<open>Standardised columns\<close>

datatype error = KeyError | ValueError

text \<open>The positions of the columns called \<open>src\<close>.  After the headers are stripped two
  columns can carry one name.\<close>

definition positions :: "string list \<Rightarrow> string \<Rightarrow> nat list" where
  "positions cols src = filter (\<lambda>i. cols ! i = src) [0..<length cols]"

text \<open>
  \<^verbatim>\<open>
  src = col_map[key]
  if src:
      work[key] = df[src]
  else:
      work[key] = np.nan
  \<close>
  The column assigned to \<open>work[key]\<close>, one cell per row of \<open>df\<close>.  When \<open>src\<close> names two
  or more columns \<open>df[src]\<close> is a table, and assigning a table of several columns to the
  single new column \<open>key\<close> raises \<open>ValueError\<close> in pandas; a name that is no column
  raises \<open>KeyError\<close>.  \<open>col_map[key]\<close> is read for the keys of \<open>variants\<close> only, which
  \<open>find_col\<close> has all put in the dictionary, so the lookup itself never fails.
\<close>

definition col_map_get :: "(string \<times> string option) list \<Rightarrow> string \<Rightarrow> string option" where
  "col_map_get col_map key = (case map_of col_map key of Some src \<Rightarrow> src | None \<Rightarrow> None)"

definition source_column :: "dataframe \<Rightarrow> string option \<Rightarrow> error + cell list" where
  "source_column df src =
     (case src of
        None \<Rightarrow> Inr (map (\<lambda>r. None) (records df))
      | Some s \<Rightarrow>
          if s = [] then Inr (map (\<lambda>r. None) (records df))
          else (case positions (columns df) s of
                  [] \<Rightarrow> Inl KeyError
                | [i] \<Rightarrow> Inr (map (\<lambda>r. cell_at r i) (records df))
                | _ \<Rightarrow> Inl ValueError))"

text \<open>A row of \<open>work\<close>: the row label and the eight canonical fields.\<close>

record row =
  idx :: nat
  delivery_time :: "real option"
  weather :: cell
  traffic :: cell
  vehicle :: cell
  agent_age :: "real option"
  agent_rating :: "real option"
  area :: cell
  category :: cell

text \<open>\<open>pd.to_numeric(work[c], errors="coerce")\<close> on one cell.  The parser of numbers is pandas'
  own and is a parameter \<open>to_num\<close> here: it gives the number a text stands for, or nothing
  (the text is then coerced to the missing value).\<close>

definition to_numeric :: "(string \<Rightarrow> real option) \<Rightarrow> cell \<Rightarrow> real option" where
  "to_numeric to_num v = (case v of None \<Rightarrow> None | Some s \<Rightarrow> to_num s)"

text \<open>The loop over \<open>col_map\<close> that fills \<open>work\<close>, followed by the conversion of the three
  numeric columns.  The columns are assigned in the order of the keys, so the first failing
  assignment decides the error.\<close>

definition standardize ::
  "(string \<Rightarrow> real option) \<Rightarrow> (string \<times> string option) list \<Rightarrow> dataframe \<Rightarrow> error + row list" where
  "standardize to_num col_map df =
     (case source_column df (col_map_get col_map ''delivery_time'') of Inl e \<Rightarrow> Inl e | Inr c_time \<Rightarrow>
      case source_column df (col_map_get col_map ''weather'') of Inl e \<Rightarrow> Inl e | Inr c_weather \<Rightarrow>
      case source_column df (col_map_get col_map ''traffic'') of Inl e \<Rightarrow> Inl e | Inr c_traffic \<Rightarrow>
      case source_column df (col_map_get col_map ''vehicle'') of Inl e \<Rightarrow> Inl e | Inr c_vehicle \<Rightarrow>
      case source_column df (col_map_get col_map ''agent_age'') of Inl e \<Rightarrow> Inl e | Inr c_age \<Rightarrow>
      case source_column df (col_map_get col_map ''agent_rating'') of Inl e \<Rightarrow> Inl e | Inr c_rating \<Rightarrow>
      case source_column df (col_map_get col_map ''area'') of Inl e \<Rightarrow> Inl e | Inr c_area \<Rightarrow>
      case source_column df (col_map_get col_map ''category'') of Inl e \<Rightarrow> Inl e | Inr c_category \<Rightarrow>
        Inr (map (\<lambda>i. \<lparr>idx = i,
                        delivery_time = to_numeric to_num (c_time ! i),
                        weather = c_weather ! i,
                        traffic = c_traffic ! i,
                        vehicle = c_vehicle ! i,
                        agent_age = to_numeric to_num (c_age ! i),
                        agent_rating = to_numeric to_num (c_rating ! i),
                        area = c_area ! i,
                        category = c_category ! i\<rparr>)
                 [0..<length (records df)]))"

text \<open>\<open>work.dropna(subset=["delivery_time"], inplace=True)\<close>\<close>

definition dropna :: "row list \<Rightarrow> row list" where
  "dropna work = filter (\<lambda>r. delivery_time r \<noteq> None) work"

subsection \<open>Statistics with missing values\<close>

text \<open>\<open>Series.dropna()\<close>: the values that are present, in order.\<close>

fun series_dropna :: "'a option list \<Rightarrow> 'a list" where
  "series_dropna [] = []"
| "series_dropna (None # vs) = series_dropna vs"
| "series_dropna (Some v # vs) = v # series_dropna vs"

text \<open>\<open>Series.mean()\<close> skips the missing values and is missing when nothing is left.\<close>

definition mean :: "real option list \<Rightarrow> real option" where
  "mean s =
     (let vs = series_dropna s
      in if vs = [] then None else Some (sum_list vs / real (length vs)))"

text \<open>\<open>Series.std()\<close> is the sample standard deviation (\<open>ddof=1\<close>): the squared deviations
  are divided by the number of present values minus one, and the result is missing when
  at most one value is present.\<close>

definition std :: "real option list \<Rightarrow> real option" where
  "std s =
     (let vs = series_dropna s; n = length vs
      in if n \<le> 1 then None
         else let m = sum_list vs / real n
              in Some (sqrt (sum_list (map (\<lambda>v. (v - m)\<^sup>2) vs) / real (n - 1))))"

text \<open>Arithmetic and comparison with the missing value: a sum or product with it is missing,
  a comparison with it is false.\<close>

definition nan_add :: "real option \<Rightarrow> real option \<Rightarrow> real option" where
  "nan_add a b = (case a of None \<Rightarrow> None | Some x \<Rightarrow> (case b of None \<Rightarrow> None | Some y \<Rightarrow> Some (x + y)))"

definition nan_mul :: "real option \<Rightarrow> real \<Rightarrow> real option" where
  "nan_mul a y = (case a of None \<Rightarrow> None | Some x \<Rightarrow> Some (x * y))"

definition nan_gt :: "real option \<Rightarrow> real option \<Rightarrow> bool" where
  "nan_gt a b = (case a of None \<Rightarrow> False | Some x \<Rightarrow> (case b of None \<Rightarrow> False | Some y \<Rightarrow> x > y))"

subsection \<open>Feature engineering\<close>

text \<open>
  \<open>pd.cut(x, bins, labels, include_lowest=True)\<close> on one value, with the default
  \<open>right=True\<close>: the bin number of \<open>v\<close> is the number of edges strictly below \<open>v\<close> (a
  left-sided \<open>searchsorted\<close> in the increasing edges), the lowest edge itself is put in the
  first bin, and a value below the first edge, above the last one, or missing has no bin.
  pandas wants one label per bin and refuses the call otherwise; the call of the script has
  three labels for its three bins, so the last test below never fires there.
\<close>

definition searchsorted_left :: "real list \<Rightarrow> real \<Rightarrow> nat" where
  "searchsorted_left bins v = length (filter (\<lambda>b. b < v) bins)"

definition cut :: "real list \<Rightarrow> string list \<Rightarrow> real option \<Rightarrow> cell" where
  "cut bins labels x =
     (case x of
        None \<Rightarrow> None
      | Some v \<Rightarrow>
          let ids = (if bins \<noteq> [] \<and> v = hd bins then 1 else searchsorted_left bins v)
          in if ids = 0 \<or> ids = length bins \<or> length labels < ids then None
             else Some (labels ! (ids - 1)))"

text \<open>The labels of the age groups; the middle one is written with an en dash (U+2013),
  three bytes in UTF-8.\<close>

definition age_bins :: "real list" where
  "age_bins = [0, 24, 40, 100]"

definition age_labels :: "string list" where
  "age_labels = [''<25'', ''25'' @ [CHR 0xE2, CHR 0x80, CHR 0x93] @ ''40'', ''40+'']"

text \<open>A row of \<open>work\<close> after feature engineering.\<close>

record frow = row +
  late :: int
  age_group :: cell

text \<open>
  \<^verbatim>\<open>
  mean_time = work["delivery_time"].mean()
  std_time = work["delivery_time"].std()
  work["late"] = np.where(work["delivery_time"] > (mean_time + std_time), 1, 0)
  work["age_group"] = pd.cut(work["agent_age"], bins=[0,24,40,100],
                             labels=["<25", "25-40", "40+"], include_lowest=True)
  \<close>
\<close>

definition feature_engineering :: "row list \<Rightarrow> frow list" where
  "feature_engineering work =
     (let mean_time = mean (map delivery_time work);
          std_time = std (map delivery_time work)
      in map (\<lambda>r. row.extend r
                    (frow.fields
                       (if nan_gt (delivery_time r) (nan_add mean_time std_time) then 1 else 0)
                       (cut age_bins age_labels (agent_age r))))
             work)"

subsection \<open>Filters\<close>

text \<open>\<open>str.capitalize\<close> on ASCII: the first character in upper case, the rest in lower case.\<close>

definition upper_char :: "char \<Rightarrow> char" where
  "upper_char c =
     (case map_of (zip ''abcdefghijklmnopqrstuvwxyz'' ''ABCDEFGHIJKLMNOPQRSTUVWXYZ'') c of
        None \<Rightarrow> c
      | Some u \<Rightarrow> u)"

definition capitalize :: "string \<Rightarrow> string" where
  "capitalize s = (case s of [] \<Rightarrow> [] | c # cs \<Rightarrow> upper_char c # lower cs)"

text \<open>
  \<^verbatim>\<open>
  def make_filter(col):
      vals = sorted(work[col].dropna().unique().tolist())
      if vals:
          return st.sidebar.multiselect(col.capitalize(), vals, default=vals)
      else:
          return []
  \<close>
  The widget is a parameter: \<open>multiselect label options default\<close> is the selection the
  user has made in it.  \<open>field\<close> reads the column \<open>col\<close> of a row.
\<close>

definition filter_vals :: "(frow \<Rightarrow> cell) \<Rightarrow> frow list \<Rightarrow> string list" where
  "filter_vals field work = sort (remdups (series_dropna (map field work)))"

definition make_filter ::
  "(string \<Rightarrow> string list \<Rightarrow> string list \<Rightarrow> string list) \<Rightarrow> string \<Rightarrow> (frow \<Rightarrow> cell) \<Rightarrow> frow list \<Rightarrow> string list" where
  "make_filter multiselect col field work =
     (let vals = filter_vals field work
      in if vals \<noteq> [] then multiselect (capitalize col) vals vals else [])"

text \<open>\<open>Series.isin(sel)\<close> on one cell, for a selection of texts.\<close>

definition isin :: "cell \<Rightarrow> string list \<Rightarrow> bool" where
  "isin v sel = (case v of None \<Rightarrow> False | Some s \<Rightarrow> s \<in> set sel)"

text \<open>
  \<^verbatim>\<open>
  filtered = work[
      work["weather"].isin(weather_sel)
      & work["traffic"].isin(traffic_sel)
      & work["vehicle"].isin(vehicle_sel)
      & work["area"].isin(area_sel)
      & work["category"].isin(category_sel)
  ]
  \<close>
\<close>

definition filtered ::
  "string list \<Rightarrow> string list \<Rightarrow> string list \<Rightarrow> string list \<Rightarrow> string list \<Rightarrow> frow list \<Rightarrow> frow list" where
  "filtered weather_sel traffic_sel vehicle_sel area_sel category_sel work =
     filter (\<lambda>r. isin (weather r) weather_sel
               \<and> isin (traffic r) traffic_sel
               \<and> isin (vehicle r) vehicle_sel
               \<and> isin (area r) area_sel
               \<and> isin (category r) category_sel)
            work"

subsection \<open>What is rendered\<close>

text \<open>
  The page is the list of the Streamlit calls made, in order.  Texts that the script builds
  with f-strings carry their parts as data (\<open>Mapping k v\<close> for \<open>"{k} -> {v}"\<close>); the emoji
  that decorate some titles are left out of the literals.
\<close>

datatype chart =
    Bar string "(string \<times> real option) list" string
  | Scatter "frow list" string
  | Box "frow list" string

datatype element =
    Title string
  | Caption string
  | Error string
  | SidebarHeader string
  | Mapping string "string option"
  | SidebarMarkdown string
  | RowsBefore nat
  | RowsAfter nat
  | SidebarDataframe "row list"
  | Multiselect string "string list"
  | FilteredRecords nat nat
  | Metric string string
  | Markdown string
  | Subheader string
  | Info string
  | PlotlyChart chart

text \<open>How a run of the script ends: it reaches the last line, it calls \<open>st.stop()\<close>, or an
  exception leaves it.\<close>

datatype outcome = Completed | Stopped | Raised error

text \<open>
  What the script takes from outside: the number parser of \<open>pd.to_numeric\<close>, the selection
  made in each \<open>multiselect\<close> widget, and Python's fixed-point formatting of a finite float
  (\<open>fixed d v\<close> for \<open>f"{v:.df}"\<close>).
\<close>

record env =
  to_num :: "string \<Rightarrow> real option"
  multiselect :: "string \<Rightarrow> string list \<Rightarrow> string list \<Rightarrow> string list"
  fixed :: "nat \<Rightarrow> real \<Rightarrow> string"

text \<open>\<open>f"{x:.2f}"\<close> on a float that may be NaN: Python writes a NaN as \<open>nan\<close>.\<close>

definition format_f :: "(nat \<Rightarrow> real \<Rightarrow> string) \<Rightarrow> nat \<Rightarrow> real option \<Rightarrow> string" where
  "format_f fx d x = (case x of None \<Rightarrow> ''nan'' | Some v \<Rightarrow> fx d v)"

text \<open>
  \<^verbatim>\<open>
  col1.metric("Avg Delivery Time (min)", f"{filtered['delivery_time'].mean():.2f}")
  col2.metric("Avg Agent Rating", f"{filtered['agent_rating'].mean():.2f}")
  col3.metric("Late Deliveries (%)", f"{filtered['late'].mean() * 100:.1f}%")
  \<close>
\<close>

definition metrics :: "(nat \<Rightarrow> real \<Rightarrow> string) \<Rightarrow> frow list \<Rightarrow> element list" where
  "metrics fx view =
     [Metric ''Avg Delivery Time (min)'' (format_f fx 2 (mean (map delivery_time view))),
      Metric ''Avg Agent Rating'' (format_f fx 2 (mean (map agent_rating view))),
      Metric ''Late Deliveries (%)''
        (format_f fx 1 (nan_mul (mean (map (\<lambda>r. Some (real_of_int (late r))) view)) 100) @ ''%'')]"

text \<open>\<open>df.groupby(col, as_index=False)["delivery_time"].mean()\<close>: one line per distinct
  present key, in sorted order, with the mean delivery time of its rows.\<close>

definition groupby_mean :: "(frow \<Rightarrow> cell) \<Rightarrow> frow list \<Rightarrow> (string \<times> real option) list" where
  "groupby_mean field view =
     map (\<lambda>k. (k, mean (map delivery_time (filter (\<lambda>r. field r = Some k) view))))
         (sort (remdups (series_dropna (map field view))))"

text \<open>
  \<^verbatim>\<open>
  def show_bar(df, x, y, title):
      if df.empty:
          st.info(f"No data available for {title}.")
      else:
          fig = px.bar(df, x=x, y=y, title=title, text_auto=True)
          st.plotly_chart(fig, use_container_width=True)
  \<close>
\<close>

definition show_bar :: "(string \<times> real option) list \<Rightarrow> string \<Rightarrow> string \<Rightarrow> element" where
  "show_bar df x title =
     (if df = [] then Info (''No data available for '' @ title @ ''.'')
      else PlotlyChart (Bar x df title))"

definition show_scatter :: "frow list \<Rightarrow> string \<Rightarrow> element" where
  "show_scatter df title =
     (if df = [] then Info (''No data for '' @ title @ ''.'')
      else PlotlyChart (Scatter df title))"

definition visuals :: "frow list \<Rightarrow> element list" where
  "visuals view =
     [Subheader ''Average Delivery Time by Weather'',
      show_bar (groupby_mean weather view) ''weather'' ''Avg Delivery Time by Weather'',
      Subheader ''Average Delivery Time by Traffic'',
      show_bar (groupby_mean traffic view) ''traffic'' ''Avg Delivery Time by Traffic'',
      Subheader ''Vehicle Performance'',
      show_bar (groupby_mean vehicle view) ''vehicle'' ''Avg Delivery Time by Vehicle'',
      Subheader ''Agent Performance - Rating vs Delivery Time'',
      show_scatter view ''Agent Rating vs Delivery Time'',
      Subheader ''Area-Wise Average Delivery Time'',
      show_bar (groupby_mean area view) ''area'' ''Avg Delivery Time by Area'',
      Subheader ''Category Distribution - Delivery Time'',
      (if view = [] then Info ''No data for selected filters.''
       else PlotlyChart (Box view ''Delivery Time Distribution by Category''))]"

subsection \<open>The script\<close>

text \<open>The stages between the column check and the metrics, as values of a run.\<close>

definition cleaned :: "row list \<Rightarrow> frow list" where
  "cleaned work0 = feature_engineering (dropna work0)"

definition filtered_view :: "env \<Rightarrow> frow list \<Rightarrow> frow list" where
  "filtered_view e work =
     (let weather_sel = make_filter (multiselect e) ''weather'' weather work;
          traffic_sel = make_filter (multiselect e) ''traffic'' traffic work;
          vehicle_sel = make_filter (multiselect e) ''vehicle'' vehicle work;
          area_sel = make_filter (multiselect e) ''area'' area work;
          category_sel = make_filter (multiselect e) ''category'' category work
      in filtered weather_sel traffic_sel vehicle_sel area_sel category_sel work)"

text \<open>The widget that \<open>make_filter\<close> puts in the sidebar: none when the column has no
  present value.\<close>

definition filter_widget :: "string \<Rightarrow> (frow \<Rightarrow> cell) \<Rightarrow> frow list \<Rightarrow> element list" where
  "filter_widget col field work =
     (let vals = filter_vals field work
      in if vals \<noteq> [] then [Multiselect (capitalize col) vals] else [])"

text \<open>Everything from the data summary to the closing captions (lines 80 to 174), for the
  table \<open>work0\<close> of standardised rows.\<close>

definition dashboard :: "env \<Rightarrow> row list \<Rightarrow> element list" where
  "dashboard e work0 =
     (let work = cleaned work0;
          view = filtered_view e work
      in [SidebarMarkdown ''### Data Summary'',
          RowsBefore (length work0),
          RowsAfter (length (dropna work0)),
          SidebarDataframe (take 5 (dropna work0)),
          SidebarHeader ''Filters'']
         @ filter_widget ''weather'' weather work
         @ filter_widget ''traffic'' traffic work
         @ filter_widget ''vehicle'' vehicle work
         @ filter_widget ''area'' area work
         @ filter_widget ''category'' category work
         @ [FilteredRecords (length view) (length work)]
         @ metrics (fixed e) view
         @ [Markdown ''---'']
         @ visuals view
         @ [Markdown ''---'',
            Caption ''Tip: Use the sidebar filters to explore how traffic, weather, or vehicle type affect delivery time.'',
            Caption ''Developed by Abhinav Chanakya | IBCP AI CRS FA2 | (c) 2025''])"

text \<open>
  The whole script.  \<open>file\<close> is what is at \<open>DATA_PATH\<close>: nothing, or the table that
  \<open>pd.read_csv\<close> reads there.  The result is the page and how the run ended.
\<close>

text \<open>Lines 26 to 31: the headers stripped, the missing values normalised.\<close>

definition load_clean :: "dataframe \<Rightarrow> dataframe" where
  "load_clean df_raw = normalize_missing (strip_columns df_raw)"

definition page_head :: "element list" where
  "page_head =
     [Title ''Last-Mile Delivery Analytics Dashboard'',
      Caption ''IBCP - AI Career-Related Study | FA2 Project by Abhinav Chanakya'']"

definition app :: "env \<Rightarrow> dataframe option \<Rightarrow> element list \<times> outcome" where
  "app e file =
     (case file of
        None \<Rightarrow>
          (page_head @
           [Error ''Dataset not found. Please upload 'Copy of Last mile Delivery Data.csv' to the project folder.''],
           Stopped)
      | Some df_raw \<Rightarrow>
          let df = load_clean df_raw;
              col_map = find_col variants (columns df);
              page = page_head @ [SidebarHeader ''Column Mapping'']
                     @ map (\<lambda>(k, v). Mapping k v) col_map
          in if \<not> truthy (col_map_get col_map ''delivery_time'')
             then (page @ [Error ''Could not find 'Delivery_Time' column. Please check your CSV header.''],
                   Stopped)
             else (case standardize (to_num e) col_map df of
                     Inl err \<Rightarrow> (page, Raised err)
                   | Inr work0 \<Rightarrow> (page @ dashboard e work0, Completed)))"

subsection \<open>The column resolver as the specification words it\<close>

text \<open>Two names are the same spelling when they are equal after lower-casing and
  trimming.\<close>

definition same_spelling :: "string \<Rightarrow> string \<Rightarrow> bool" where
  "same_spelling a b = (strip (lower a) = strip (lower b))"

text \<open>The accepted spellings are scanned in order and, for each, the headers in order; the
  first header met that has the spelling is the result, and there is none when no spelling
  matches.\<close>

definition first_match :: "string list \<Rightarrow> string list \<Rightarrow> string option" where
  "first_match options headers =
     (case concat (map (\<lambda>opt. filter (\<lambda>c. same_spelling c opt) headers) options) of
        [] \<Rightarrow> None
      | c # _ \<Rightarrow> Some c)"

subsection \<open>Headers that name one column\<close>

text \<open>The headers \<open>cols\<close> are unambiguous when every header that \<open>find_col\<close> resolves a
  field to occurs once among them.\<close>

definition unambiguous :: "string list \<Rightarrow> bool" where
  "unambiguous cols =
     (\<forall>(key, src) \<in> set (find_col variants cols).
        case src of None \<Rightarrow> True | Some h \<Rightarrow> count_list cols h = 1)"

subsection \<open>Example data\<close>

text \<open>The four delivery times 10, 20, 30 and 1000 as a table of standardised rows, the other
  fields filled alike.\<close>

definition example_row :: "nat \<Rightarrow> real \<Rightarrow> row" where
  "example_row i t =
     \<lparr>idx = i, delivery_time = Some t, weather = Some ''Sunny'', traffic = Some ''Low'',
      vehicle = Some ''Bike'', agent_age = Some 30, agent_rating = Some 4,
      area = Some ''Urban'', category = Some ''Food''\<rparr>"

definition example_work :: "row list" where
  "example_work = [example_row 0 10, example_row 1 20, example_row 2 30, example_row 3 1000]"

text \<open>An environment for the examples: a parser that knows five numerals, a user who leaves
  every widget at its default, and a formatter that writes a fixed text.  In
  \<open>example_env_none\<close> the user has emptied every widget.\<close>

definition example_env :: env where
  "example_env =
     \<lparr>to_num = map_of [(''4'', 4), (''10'', 10), (''20'', 20), (''30'', 30), (''1000'', 1000)],
      multiselect = (\<lambda>label options default. default),
      fixed = (\<lambda>d v. ''#'')\<rparr>"

definition example_env_none :: env where
  "example_env_none = example_env\<lparr>multiselect := (\<lambda>label options default. [])\<rparr>"

text \<open>In \<open>example_env_rainy\<close> the user has left only \<open>Rainy\<close> in the weather widget.\<close>

definition example_env_rainy :: env where
  "example_env_rainy =
     example_env\<lparr>multiselect :=
       (\<lambda>label options default. if label = ''Weather'' then [''Rainy''] else default)\<rparr>"

text \<open>Three files: one delivery with a padded weather header and a short second row, a file
  with no delivery-time column, and a file whose two headers are the same name once
  stripped.\<close>

definition example_df :: dataframe where
  "example_df =
     \<lparr>columns = [''Delivery_Time'', '' Weather ''],
      records = [[Some ''10'', Some ''Sunny''], [Some ''soon'']]\<rparr>"

text \<open>A file with all eight columns under various spellings, and two deliveries.\<close>

definition example_df_full :: dataframe where
  "example_df_full =
     \<lparr>columns = [''Time Taken'', '' weather'', ''TRAFFIC'', ''Vehicle Type'', ''Age'', ''Rating'',
                 ''Region'', ''Product Category''],
      records =
        [[Some ''10'', Some ''Sunny'', Some ''Low'', Some ''Bike'', Some ''30'', Some ''4'',
          Some ''Urban'', Some ''Food''],
         [Some ''20'', Some ''Rainy'', Some ''Low'', Some ''Bike'', Some ''30'', Some ''4'',
          Some ''Urban'', Some ''Food'']]\<rparr>"

definition example_df_no_time :: dataframe where
  "example_df_no_time = \<lparr>columns = [''Weather''], records = [[Some ''Sunny'']]\<rparr>"

definition example_df_twice :: dataframe where
  "example_df_twice =
     \<lparr>columns = [''Delivery_Time'', '' Delivery_Time''],
      records = [[Some ''10'', Some ''20'']]\<rparr>"

section \<open>Properties\<close>

subsection \<open>Column resolution\<close>

lemma variants_not_blank:
  "\<forall>(key, options) \<in> set variants. \<forall>opt \<in> set options. strip (lower opt) \<noteq> []"
  by code_simp

lemma variants_distinct: "distinct (map fst variants)"
  by code_simp

lemma strip_lower_Nil: "strip (lower []) = []"
  by (simp add: strip_def lower_def)

lemma scan_cols_filter:
  "scan_cols opt cs found =
     (case filter (\<lambda>c. same_spelling c opt) cs of [] \<Rightarrow> found | c # _ \<Rightarrow> Some c)"
  by (induction cs) (auto simp: same_spelling_def)

lemma scan_options_first_match:
  assumes "\<forall>opt \<in> set options. strip (lower opt) \<noteq> []"
  shows "scan_options options cs None = first_match options cs"
  using assms
proof (induction options)
  case Nil
  then show ?case by (simp add: first_match_def)
next
  case (Cons opt opts)
  let ?m = "filter (\<lambda>c. same_spelling c opt) cs"
  show ?case
  proof (cases ?m)
    case Nil
    then have "scan_cols opt cs None = None" by (simp add: scan_cols_filter)
    moreover have "first_match (opt # opts) cs = first_match opts cs"
      using Nil by (simp add: first_match_def)
    ultimately show ?thesis using Cons.IH Cons.prems by (simp add: truthy_def)
  next
    case (Cons c rest)
    then have "c \<in> set ?m" by simp
    then have "strip (lower c) = strip (lower opt)" by (simp add: same_spelling_def)
    moreover have "strip (lower opt) \<noteq> []" using Cons.prems by simp
    ultimately have "c \<noteq> []" using strip_lower_Nil by auto
    moreover have "scan_cols opt cs None = Some c" using Cons by (simp add: scan_cols_filter)
    moreover have "first_match (opt # opts) cs = Some c"
      using Cons by (simp add: first_match_def)
    ultimately show ?thesis by (simp add: truthy_def)
  qed
qed

lemma map_of_find_col:
  "distinct (map fst vs) \<Longrightarrow> (key, options) \<in> set vs \<Longrightarrow>
   map_of (find_col vs hs) key = Some (scan_options options hs None)"
  by (induction vs) (auto simp: find_col_def rev_image_eqI)

lemma find_col_variants:
  assumes "(key, options) \<in> set variants"
  shows "map_of (find_col variants hs) key = Some (first_match options hs)"
    and "col_map_get (find_col variants hs) key = first_match options hs"
proof -
  have "\<forall>opt \<in> set options. strip (lower opt) \<noteq> []"
    using variants_not_blank assms by blast
  then show "map_of (find_col variants hs) key = Some (first_match options hs)"
    using map_of_find_col [OF variants_distinct assms] scan_options_first_match by simp
  then show "col_map_get (find_col variants hs) key = first_match options hs"
    by (simp add: col_map_get_def)
qed

lemma first_match_cases:
  "first_match options hs =
     (case concat (map (\<lambda>opt. filter (\<lambda>c. same_spelling c opt) hs) options) of
        [] \<Rightarrow> None | c # _ \<Rightarrow> Some c)"
  by (simp add: first_match_def)

lemma set_matches:
  "set (concat (map (\<lambda>opt. filter (\<lambda>c. same_spelling c opt) hs) options)) =
     {h \<in> set hs. \<exists>opt \<in> set options. same_spelling h opt}"
  by auto

lemma first_match_Some:
  assumes "first_match options hs = Some h"
  shows "h \<in> set hs \<and> (\<exists>opt \<in> set options. same_spelling h opt)"
proof -
  define ms where "ms = concat (map (\<lambda>opt. filter (\<lambda>c. same_spelling c opt) hs) options)"
  from assms have "\<exists>rest. ms = h # rest"
    unfolding first_match_cases ms_def [symmetric] by (cases ms) auto
  then have "h \<in> set ms" by auto
  then show ?thesis unfolding ms_def set_matches by simp
qed

lemma first_match_None:
  "first_match options hs = None \<longleftrightarrow>
     (\<forall>opt \<in> set options. \<forall>h \<in> set hs. \<not> same_spelling h opt)"
proof -
  define ms where "ms = concat (map (\<lambda>opt. filter (\<lambda>c. same_spelling c opt) hs) options)"
  have "first_match options hs = None \<longleftrightarrow> ms = []"
    unfolding first_match_cases ms_def [symmetric] by (cases ms) auto
  also have "\<dots> \<longleftrightarrow> set ms = {}" by simp
  also have "\<dots> \<longleftrightarrow> (\<forall>opt \<in> set options. \<forall>h \<in> set hs. \<not> same_spelling h opt)"
    unfolding ms_def set_matches by auto
  finally show ?thesis .
qed

lemma filter_same_spelling:
  "list_all2 same_spelling hs hs' \<Longrightarrow>
   list_all2 same_spelling (filter (\<lambda>c. same_spelling c opt) hs) (filter (\<lambda>c. same_spelling c opt) hs')"
  by (induction rule: list_all2_induct) (auto simp: same_spelling_def)

lemma matches_same_spelling:
  "list_all2 same_spelling hs hs' \<Longrightarrow>
   list_all2 same_spelling
     (concat (map (\<lambda>opt. filter (\<lambda>c. same_spelling c opt) hs) options))
     (concat (map (\<lambda>opt. filter (\<lambda>c. same_spelling c opt) hs') options))"
  by (induction options) (auto intro: list_all2_appendI filter_same_spelling)

lemma first_match_same_spelling:
  assumes "list_all2 same_spelling hs hs'"
  shows "rel_option same_spelling (first_match options hs) (first_match options hs')"
proof -
  define ms where "ms = concat (map (\<lambda>opt. filter (\<lambda>c. same_spelling c opt) hs) options)"
  define ms' where "ms' = concat (map (\<lambda>opt. filter (\<lambda>c. same_spelling c opt) hs') options)"
  have "list_all2 same_spelling ms ms'"
    unfolding ms_def ms'_def by (rule matches_same_spelling [OF assms])
  then show ?thesis
    unfolding first_match_cases ms_def [symmetric] ms'_def [symmetric]
    by (cases ms; cases ms') auto
qed

text \<open>
  C5.  For each of the eight canonical fields of \<open>variants\<close> and any list of headers,
  \<open>find_col\<close> maps the field to the first header found when the accepted spellings are
  scanned in order and, for each spelling, the headers in order, two names matching when
  they are equal after lower-casing and trimming; the field is absent exactly when no
  header has an accepted spelling; the result is one of the headers; two header lists that
  agree position by position up to case and surrounding blanks resolve alike; a header
  \<open>" Weather "\<close> resolves as \<open>"weather"\<close> does, and a spelling listed earlier wins over a
  header met earlier.
\<close>

theorem find_col_first_match:
  assumes "(key, options) \<in> set variants"
  shows "map_of (find_col variants hs) key = Some (first_match options hs)
       \<and> (first_match options hs = None \<longleftrightarrow>
            (\<forall>opt \<in> set options. \<forall>h \<in> set hs. \<not> same_spelling h opt))
       \<and> (\<forall>h. first_match options hs = Some h \<longrightarrow>
            h \<in> set hs \<and> (\<exists>opt \<in> set options. same_spelling h opt))
       \<and> (list_all2 same_spelling hs hs' \<longrightarrow>
            rel_option same_spelling
              (col_map_get (find_col variants hs) key)
              (col_map_get (find_col variants hs') key))
       \<and> col_map_get (find_col variants ['' Weather '']) ''weather'' = Some '' Weather ''
       \<and> col_map_get (find_col variants [''weather'']) ''weather'' = Some ''weather''
       \<and> col_map_get (find_col variants [''Vehicle Type'', ''VEHICLE'']) ''vehicle'' = Some ''VEHICLE''"
proof -
  have a: "map_of (find_col variants hs) key = Some (first_match options hs)"
    by (rule find_col_variants(1) [OF assms])
  have b: "first_match options hs = None \<longleftrightarrow>
            (\<forall>opt \<in> set options. \<forall>h \<in> set hs. \<not> same_spelling h opt)"
    by (rule first_match_None)
  have c: "\<forall>h. first_match options hs = Some h \<longrightarrow>
            h \<in> set hs \<and> (\<exists>opt \<in> set options. same_spelling h opt)"
    using first_match_Some by blast
  have d: "list_all2 same_spelling hs hs' \<longrightarrow>
            rel_option same_spelling
              (col_map_get (find_col variants hs) key)
              (col_map_get (find_col variants hs') key)"
    using first_match_same_spelling [of hs hs' options]
    by (simp add: find_col_variants(2) [OF assms])
  have e: "col_map_get (find_col variants ['' Weather '']) ''weather'' = Some '' Weather ''"
    by code_simp
  have f: "col_map_get (find_col variants [''weather'']) ''weather'' = Some ''weather''"
    by code_simp
  have g: "col_map_get (find_col variants [''Vehicle Type'', ''VEHICLE'']) ''vehicle'' = Some ''VEHICLE''"
    by code_simp
  show ?thesis
    using a b c d e f g by (intro conjI)
qed

theorem find_col_first_match_witness:
  "(''vehicle'', [''Vehicle'', ''vehicle'', ''Vehicle Type'']) \<in> set variants
   \<and> list_all2 same_spelling [''Vehicle Type'', ''VEHICLE''] [''vehicle type '', '' Vehicle'']
   \<and> map_of (find_col variants [''Vehicle Type'', ''VEHICLE'']) ''vehicle''
       = Some (first_match [''Vehicle'', ''vehicle'', ''Vehicle Type''] [''Vehicle Type'', ''VEHICLE''])
   \<and> first_match [''Vehicle'', ''vehicle'', ''Vehicle Type''] [''Vehicle Type'', ''VEHICLE''] = Some ''VEHICLE''
   \<and> rel_option same_spelling
        (col_map_get (find_col variants [''Vehicle Type'', ''VEHICLE'']) ''vehicle'')
        (col_map_get (find_col variants [''vehicle type '', '' Vehicle'']) ''vehicle'')"
proof -
  have mem: "(''vehicle'', [''Vehicle'', ''vehicle'', ''Vehicle Type'']) \<in> set variants"
    by (simp add: variants_def)
  have same: "list_all2 same_spelling [''Vehicle Type'', ''VEHICLE''] [''vehicle type '', '' Vehicle'']"
    by code_simp
  have val: "first_match [''Vehicle'', ''vehicle'', ''Vehicle Type''] [''Vehicle Type'', ''VEHICLE''] = Some ''VEHICLE''"
    by code_simp
  note inst = find_col_first_match [OF mem, of "[''Vehicle Type'', ''VEHICLE'']" "[''vehicle type '', '' Vehicle'']"]
  have r1: "map_of (find_col variants [''Vehicle Type'', ''VEHICLE'']) ''vehicle''
       = Some (first_match [''Vehicle'', ''vehicle'', ''Vehicle Type''] [''Vehicle Type'', ''VEHICLE''])"
    using inst by (elim conjE)
  have r2: "rel_option same_spelling
        (col_map_get (find_col variants [''Vehicle Type'', ''VEHICLE'']) ''vehicle'')
        (col_map_get (find_col variants [''vehicle type '', '' Vehicle'']) ''vehicle'')"
    using inst same by (elim conjE impE)
  show ?thesis
    using mem same r1 val r2 by (intro conjI)
qed

subsection \<open>Rows and their fields\<close>

lemma extend_fields [simp]:
  "idx (row.extend r (frow.fields l g)) = idx r"
  "delivery_time (row.extend r (frow.fields l g)) = delivery_time r"
  "weather (row.extend r (frow.fields l g)) = weather r"
  "traffic (row.extend r (frow.fields l g)) = traffic r"
  "vehicle (row.extend r (frow.fields l g)) = vehicle r"
  "agent_age (row.extend r (frow.fields l g)) = agent_age r"
  "agent_rating (row.extend r (frow.fields l g)) = agent_rating r"
  "area (row.extend r (frow.fields l g)) = area r"
  "category (row.extend r (frow.fields l g)) = category r"
  "late (row.extend r (frow.fields l g)) = l"
  "age_group (row.extend r (frow.fields l g)) = g"
  by (simp_all add: row.defs frow.defs)

lemma series_dropna_map_Some [simp]: "series_dropna (map Some xs) = xs"
  by (induction xs) auto

lemma set_series_dropna: "set (series_dropna vs) = {v. Some v \<in> set vs}"
  by (induction vs rule: series_dropna.induct) auto

lemma length_series_dropna: "length (series_dropna vs) \<le> length vs"
  by (induction vs rule: series_dropna.induct) auto

subsection \<open>The row drop\<close>

lemma dropna_present: "r \<in> set (dropna work) \<Longrightarrow> \<exists>t. delivery_time r = Some t"
  by (auto simp: dropna_def)

lemma length_dropna: "length (dropna work) \<le> length work"
  by (simp add: dropna_def)

lemma map_idx_feature_engineering: "map idx (feature_engineering work) = map idx work"
  by (simp add: feature_engineering_def Let_def comp_def)

lemma map_delivery_time_feature_engineering:
  "map delivery_time (feature_engineering work) = map delivery_time work"
  by (simp add: feature_engineering_def Let_def comp_def)

lemma length_feature_engineering: "length (feature_engineering work) = length work"
  by (simp add: feature_engineering_def Let_def)

lemma cleaned_present: "r \<in> set (cleaned work0) \<Longrightarrow> \<exists>t. delivery_time r = Some t"
proof -
  assume "r \<in> set (cleaned work0)"
  then have "delivery_time r \<in> set (map delivery_time (cleaned work0))" by simp
  then have "delivery_time r \<in> set (map delivery_time (dropna work0))"
    by (simp only: cleaned_def map_delivery_time_feature_engineering)
  then show ?thesis using dropna_present by auto
qed

text \<open>
  C6.  Every record that the row drop keeps has a delivery time that is present, a number;
  so has every record of the cleaned table after the features are added; the cleaned table
  has as many rows as survive the drop, and never more than the table before it.
\<close>

theorem dropna_delivery_time_present:
  "(\<forall>r \<in> set (dropna work0). \<exists>t. delivery_time r = Some t)
   \<and> (\<forall>r \<in> set (cleaned work0). \<exists>t. delivery_time r = Some t)
   \<and> length (cleaned work0) = length (dropna work0)
   \<and> length (dropna work0) \<le> length work0"
  using dropna_present cleaned_present length_dropna [of work0]
  by (simp add: cleaned_def length_feature_engineering)

theorem dropna_delivery_time_present_witness:
  "example_row 0 10 \<in> set (dropna [example_row 0 10, (example_row 1 20)\<lparr>delivery_time := None\<rparr>])
   \<and> (\<exists>t. delivery_time (example_row 0 10) = Some t)
   \<and> length (dropna [example_row 0 10, (example_row 1 20)\<lparr>delivery_time := None\<rparr>]) = 1
   \<and> length (cleaned [example_row 0 10, (example_row 1 20)\<lparr>delivery_time := None\<rparr>]) = 1
   \<and> cleaned [example_row 0 10, (example_row 1 20)\<lparr>delivery_time := None\<rparr>] ! 0
        \<in> set (cleaned [example_row 0 10, (example_row 1 20)\<lparr>delivery_time := None\<rparr>])
   \<and> (\<exists>t. delivery_time (cleaned [example_row 0 10, (example_row 1 20)\<lparr>delivery_time := None\<rparr>] ! 0) = Some t)"
proof -
  define W where "W = [example_row 0 10, (example_row 1 20)\<lparr>delivery_time := None\<rparr>]"
  note inst = dropna_delivery_time_present [of W]
  have d: "dropna W = [example_row 0 10]"
    by (simp add: W_def dropna_def example_row_def)
  then have m1: "example_row 0 10 \<in> set (dropna W)" and l1: "length (dropna W) = 1"
    by simp_all
  from inst m1 have p1: "\<exists>t. delivery_time (example_row 0 10) = Some t" by blast
  from inst l1 have l2: "length (cleaned W) = 1" by simp
  then have m2: "cleaned W ! 0 \<in> set (cleaned W)" by (intro nth_mem) simp
  with inst have p2: "\<exists>t. delivery_time (cleaned W ! 0) = Some t" by blast
  from m1 p1 l1 l2 m2 p2 show ?thesis unfolding W_def by (intro conjI)
qed

subsection \<open>The late flag\<close>

text \<open>The square root of \<open>std\<close> is not computed: a comparison with \<open>m + sqrt v\<close> is decided
  by comparing squares.\<close>

lemma gt_add_sqrt_iff:
  assumes "0 \<le> v"
  shows "x > m + sqrt v \<longleftrightarrow> x > m \<and> (x - m)\<^sup>2 > v"
proof
  assume h: "x > m + sqrt v"
  have "0 \<le> sqrt v" using assms by simp
  with h have "x > m" and "sqrt v < x - m" by linarith+
  then have "(sqrt v)\<^sup>2 < (x - m)\<^sup>2"
    using \<open>0 \<le> sqrt v\<close> by (intro power_strict_mono) auto
  then show "x > m \<and> (x - m)\<^sup>2 > v" using assms \<open>x > m\<close> by simp
next
  assume h: "x > m \<and> (x - m)\<^sup>2 > v"
  then have "sqrt v < sqrt ((x - m)\<^sup>2)"
    by (intro real_sqrt_less_mono) simp
  also have "\<dots> = \<bar>x - m\<bar>" by (rule real_sqrt_abs)
  also have "\<dots> = x - m" using h by simp
  finally show "x > m + sqrt v" by linarith
qed

lemma late_feature_engineering:
  assumes "r \<in> set (feature_engineering work)"
  shows "late r =
           (if nan_gt (delivery_time r)
                 (nan_add (mean (map delivery_time work)) (std (map delivery_time work)))
            then 1 else 0)"
  using assms by (auto simp: feature_engineering_def Let_def)

lemma nan_gt_mean_std:
  "nan_gt x (nan_add (mean s) (std s)) \<longleftrightarrow>
     (\<exists>t. x = Some t \<and>
        (let ts = series_dropna s; n = length ts; m = sum_list ts / real n
         in 2 \<le> n \<and> t > m + sqrt ((\<Sum>v\<leftarrow>ts. (v - m)\<^sup>2) / real (n - 1))))"
proof (cases "2 \<le> length (series_dropna s)")
  case True
  then have "series_dropna s \<noteq> []" by auto
  with True show ?thesis
    by (cases x) (simp_all add: nan_gt_def nan_add_def mean_def std_def Let_def)
next
  case False
  then have "length (series_dropna s) \<le> 1" by simp
  then have "std s = None" by (simp add: std_def Let_def)
  then have "\<not> nan_gt x (nan_add (mean s) (std s))"
    by (simp add: nan_gt_def nan_add_def split: option.splits)
  with False show ?thesis by (simp add: Let_def)
qed

lemma dropna_example: "dropna example_work = example_work"
  by (simp add: dropna_def example_work_def example_row_def)

lemma times_example: "map delivery_time example_work = map Some [10, 20, 30, 1000]"
  by (simp add: example_work_def example_row_def)

lemma mean_example: "mean (map delivery_time example_work) = Some 265"
  unfolding times_example by (simp add: mean_def)

lemma std_example: "std (map delivery_time example_work) = Some (sqrt (720500 / 3))"
  unfolding times_example by (simp add: std_def Let_def)

lemma late_threshold_example:
  "nan_gt (Some t) (nan_add (Some 265) (Some (sqrt (720500 / 3)))) \<longleftrightarrow>
     t > 265 \<and> (t - 265)\<^sup>2 > 720500 / 3"
  using gt_add_sqrt_iff [where v = "720500 / 3" and x = t and m = 265]
  by (simp add: nan_gt_def nan_add_def)

lemma late_example: "map late (cleaned example_work) = [0, 0, 0, 1]"
  unfolding cleaned_def dropna_example feature_engineering_def mean_example std_example Let_def
  by (simp add: example_work_def example_row_def late_threshold_example power2_eq_square)

text \<open>
  C1.  In the cleaned table (the rows kept by the row drop, whatever the user selects
  later) the late flag of a record is 1 exactly when at least two delivery times are
  present and the record's delivery time exceeds their mean plus their standard deviation,
  and 0 otherwise; the standard deviation is the one \<open>Series.std\<close> computes, with the
  divisor \<open>n - 1\<close>.  For the delivery times 10, 20, 30, 1000 the flags are 0, 0, 0, 1.
\<close>

theorem late_flag_mean_plus_std:
  "(\<forall>r \<in> set (cleaned work0).
      late r =
        (if \<exists>t. delivery_time r = Some t \<and>
               (let ts = series_dropna (map delivery_time (dropna work0));
                    n = length ts;
                    m = sum_list ts / real n
                in 2 \<le> n \<and> t > m + sqrt ((\<Sum>v\<leftarrow>ts. (v - m)\<^sup>2) / real (n - 1)))
         then 1 else 0))
   \<and> map late (cleaned example_work) = [0, 0, 0, 1]"
proof -
  have "late r =
        (if \<exists>t. delivery_time r = Some t \<and>
               (let ts = series_dropna (map delivery_time (dropna work0));
                    n = length ts;
                    m = sum_list ts / real n
                in 2 \<le> n \<and> t > m + sqrt ((\<Sum>v\<leftarrow>ts. (v - m)\<^sup>2) / real (n - 1)))
         then 1 else 0)"
    if "r \<in> set (cleaned work0)" for r
    using late_feature_engineering [of r "dropna work0"] that
    unfolding cleaned_def nan_gt_mean_std by simp
  then show ?thesis using late_example by blast
qed

theorem late_flag_mean_plus_std_witness:
  "cleaned example_work ! 3 \<in> set (cleaned example_work)
   \<and> delivery_time (cleaned example_work ! 3) = Some 1000
   \<and> late (cleaned example_work ! 3) = 1
   \<and> (let ts = series_dropna (map delivery_time (dropna example_work));
           n = length ts;
           m = sum_list ts / real n
       in 2 \<le> n \<and> 1000 > m + sqrt ((\<Sum>v\<leftarrow>ts. (v - m)\<^sup>2) / real (n - 1)))"
proof -
  have len: "length (cleaned example_work) = 4"
    unfolding cleaned_def dropna_example length_feature_engineering
    by (simp add: example_work_def)
  then have mem: "cleaned example_work ! 3 \<in> set (cleaned example_work)"
    by (intro nth_mem) simp
  have "map delivery_time (cleaned example_work) ! 3 = Some 1000"
    by (simp add: cleaned_def map_delivery_time_feature_engineering dropna_example times_example)
  then have t: "delivery_time (cleaned example_work ! 3) = Some 1000"
    using len by simp
  have "map late (cleaned example_work) ! 3 = 1"
    using late_flag_mean_plus_std [of example_work] by simp
  then have l: "late (cleaned example_work ! 3) = 1"
    using len by simp
  have "late (cleaned example_work ! 3) =
        (if \<exists>t. delivery_time (cleaned example_work ! 3) = Some t \<and>
               (let ts = series_dropna (map delivery_time (dropna example_work));
                    n = length ts;
                    m = sum_list ts / real n
                in 2 \<le> n \<and> t > m + sqrt ((\<Sum>v\<leftarrow>ts. (v - m)\<^sup>2) / real (n - 1)))
         then 1 else 0)"
    using late_flag_mean_plus_std [of example_work] mem by blast
  with l t have "let ts = series_dropna (map delivery_time (dropna example_work));
           n = length ts;
           m = sum_list ts / real n
       in 2 \<le> n \<and> 1000 > m + sqrt ((\<Sum>v\<leftarrow>ts. (v - m)\<^sup>2) / real (n - 1))"
    by (simp split: if_splits)
  with mem t l show ?thesis by (intro conjI)
qed


subsection \<open>Age groups\<close>

lemma cut_age:
  "cut age_bins age_labels x =
     (case x of
        None \<Rightarrow> None
      | Some a \<Rightarrow>
          if 0 \<le> a \<and> a \<le> 24 then Some ''<25''
          else if 24 < a \<and> a \<le> 40 then Some (''25'' @ [CHR 0xE2, CHR 0x80, CHR 0x93] @ ''40'')
          else if 40 < a \<and> a \<le> 100 then Some ''40+''
          else None)"
  by (auto simp: cut_def age_bins_def age_labels_def searchsorted_left_def Let_def split: option.splits)

lemma age_group_feature_engineering:
  "r \<in> set (feature_engineering work) \<Longrightarrow> age_group r = cut age_bins age_labels (agent_age r)"
  by (auto simp: feature_engineering_def Let_def)

text \<open>
  C4.  For every record of the cleaned table the age group is \<open><25\<close> when the agent's age
  lies in [0, 24], \<open>25-40\<close> (written with an en dash) when it lies in (24, 40], \<open>40+\<close> when
  it lies in (40, 100], and missing when the age is missing or outside [0, 100].  Ages 0 and
  24 give \<open><25\<close>, 25 and 40 give \<open>25-40\<close>, 41 and 100 give \<open>40+\<close>, 150 and a missing age give
  a missing group.
\<close>

theorem age_group_buckets:
  "(\<forall>r \<in> set (cleaned work0).
      age_group r =
        (case agent_age r of
           None \<Rightarrow> None
         | Some a \<Rightarrow>
             if 0 \<le> a \<and> a \<le> 24 then Some ''<25''
             else if 24 < a \<and> a \<le> 40 then Some (''25'' @ [CHR 0xE2, CHR 0x80, CHR 0x93] @ ''40'')
             else if 40 < a \<and> a \<le> 100 then Some ''40+''
             else None))
   \<and> map (cut age_bins age_labels) [Some 0, Some 24, Some 25, Some 40, Some 41, Some 100, Some 150, None] =
       [Some ''<25'', Some ''<25'',
        Some (''25'' @ [CHR 0xE2, CHR 0x80, CHR 0x93] @ ''40''),
        Some (''25'' @ [CHR 0xE2, CHR 0x80, CHR 0x93] @ ''40''),
        Some ''40+'', Some ''40+'', None, None]"
proof -
  have "age_group r = cut age_bins age_labels (agent_age r)" if "r \<in> set (cleaned work0)" for r
    using that age_group_feature_engineering by (simp add: cleaned_def)
  then have a: "\<forall>r \<in> set (cleaned work0).
      age_group r =
        (case agent_age r of
           None \<Rightarrow> None
         | Some a \<Rightarrow>
             if 0 \<le> a \<and> a \<le> 24 then Some ''<25''
             else if 24 < a \<and> a \<le> 40 then Some (''25'' @ [CHR 0xE2, CHR 0x80, CHR 0x93] @ ''40'')
             else if 40 < a \<and> a \<le> 100 then Some ''40+''
             else None)"
    by (simp add: cut_age)
  have b: "map (cut age_bins age_labels) [Some 0, Some 24, Some 25, Some 40, Some 41, Some 100, Some 150, None] =
       [Some ''<25'', Some ''<25'',
        Some (''25'' @ [CHR 0xE2, CHR 0x80, CHR 0x93] @ ''40''),
        Some (''25'' @ [CHR 0xE2, CHR 0x80, CHR 0x93] @ ''40''),
        Some ''40+'', Some ''40+'', None, None]"
    by (simp add: cut_age)
  from a b show ?thesis by (intro conjI)
qed

theorem age_group_buckets_witness:
  "cleaned example_work ! 0 \<in> set (cleaned example_work)
   \<and> agent_age (cleaned example_work ! 0) = Some 30
   \<and> age_group (cleaned example_work ! 0) = Some (''25'' @ [CHR 0xE2, CHR 0x80, CHR 0x93] @ ''40'')"
proof -
  have len: "length (cleaned example_work) = 4"
    unfolding cleaned_def dropna_example length_feature_engineering
    by (simp add: example_work_def)
  then have mem: "cleaned example_work ! 0 \<in> set (cleaned example_work)"
    by (intro nth_mem) simp
  have "map agent_age (cleaned example_work) ! 0 = Some 30"
    unfolding cleaned_def dropna_example feature_engineering_def Let_def
    by (simp add: example_work_def example_row_def)
  then have a: "agent_age (cleaned example_work ! 0) = Some 30"
    using len by simp
  from age_group_buckets [of example_work] mem
  have "age_group (cleaned example_work ! 0) =
        (case agent_age (cleaned example_work ! 0) of
           None \<Rightarrow> None
         | Some a \<Rightarrow>
             if 0 \<le> a \<and> a \<le> 24 then Some ''<25''
             else if 24 < a \<and> a \<le> 40 then Some (''25'' @ [CHR 0xE2, CHR 0x80, CHR 0x93] @ ''40'')
             else if 40 < a \<and> a \<le> 100 then Some ''40+''
             else None)"
    by blast
  then have g: "age_group (cleaned example_work ! 0) = Some (''25'' @ [CHR 0xE2, CHR 0x80, CHR 0x93] @ ''40'')"
    unfolding a by simp
  from mem a g show ?thesis by (intro conjI)
qed

subsection \<open>The filtered view\<close>

lemma isin_iff: "isin v sel \<longleftrightarrow> v \<in> Some ` set sel"
  by (cases v) (auto simp: isin_def)

lemma set_filtered:
  "set (filtered ws ts vs as cs work) =
     {r \<in> set work. weather r \<in> Some ` set ws \<and> traffic r \<in> Some ` set ts \<and> vehicle r \<in> Some ` set vs
                   \<and> area r \<in> Some ` set as \<and> category r \<in> Some ` set cs}"
  by (auto simp: filtered_def isin_iff)

lemma set_filtered_view: "set (filtered_view e work) \<subseteq> set work"
  by (auto simp: filtered_view_def Let_def set_filtered)

lemma filtered_present:
  assumes "r \<in> set (filtered ws ts vs as cs work)"
  shows "weather r \<noteq> None \<and> traffic r \<noteq> None \<and> vehicle r \<noteq> None \<and> area r \<noteq> None \<and> category r \<noteq> None"
  using assms unfolding set_filtered by auto

text \<open>
  C3.  Whatever the five selections are, a record is in the filtered view exactly when it
  is a record of the cleaned table and its weather, traffic, vehicle, area and category
  are each a member of the selection of that field; when any one of the five selections is
  empty the filtered view is empty, whatever the other four are.
\<close>

theorem filtered_iff_all_five:
  "(r \<in> set (filtered weather_sel traffic_sel vehicle_sel area_sel category_sel work) \<longleftrightarrow>
      r \<in> set work
      \<and> weather r \<in> Some ` set weather_sel
      \<and> traffic r \<in> Some ` set traffic_sel
      \<and> vehicle r \<in> Some ` set vehicle_sel
      \<and> area r \<in> Some ` set area_sel
      \<and> category r \<in> Some ` set category_sel)
   \<and> filtered [] traffic_sel vehicle_sel area_sel category_sel work = []
   \<and> filtered weather_sel [] vehicle_sel area_sel category_sel work = []
   \<and> filtered weather_sel traffic_sel [] area_sel category_sel work = []
   \<and> filtered weather_sel traffic_sel vehicle_sel [] category_sel work = []
   \<and> filtered weather_sel traffic_sel vehicle_sel area_sel [] work = []"
proof -
  have "r \<in> set (filtered weather_sel traffic_sel vehicle_sel area_sel category_sel work) \<longleftrightarrow>
      r \<in> set work
      \<and> weather r \<in> Some ` set weather_sel
      \<and> traffic r \<in> Some ` set traffic_sel
      \<and> vehicle r \<in> Some ` set vehicle_sel
      \<and> area r \<in> Some ` set area_sel
      \<and> category r \<in> Some ` set category_sel"
    unfolding set_filtered by simp
  moreover have "\<And>v. \<not> isin v []" by (simp add: isin_def split: option.splits)
  then have "filtered [] traffic_sel vehicle_sel area_sel category_sel work = []"
    "filtered weather_sel [] vehicle_sel area_sel category_sel work = []"
    "filtered weather_sel traffic_sel [] area_sel category_sel work = []"
    "filtered weather_sel traffic_sel vehicle_sel [] category_sel work = []"
    "filtered weather_sel traffic_sel vehicle_sel area_sel [] work = []"
    by (simp_all add: filtered_def)
  ultimately show ?thesis by (intro conjI)
qed

theorem filtered_iff_all_five_witness:
  "cleaned example_work ! 0
     \<in> set (filtered [''Sunny''] [''Low''] [''Bike''] [''Urban''] [''Food''] (cleaned example_work))
   \<and> cleaned example_work ! 0
     \<notin> set (filtered [''Rainy''] [''Low''] [''Bike''] [''Urban''] [''Food''] (cleaned example_work))
   \<and> filtered [''Sunny''] [''Low''] [] [''Urban''] [''Food''] (cleaned example_work) = []"
proof -
  have len: "length (cleaned example_work) = 4"
    unfolding cleaned_def dropna_example length_feature_engineering
    by (simp add: example_work_def)
  then have mem: "cleaned example_work ! 0 \<in> set (cleaned example_work)"
    by (intro nth_mem) simp
  have "cleaned example_work ! 0 = row.extend (example_row 0 10) (frow.fields (late (cleaned example_work ! 0)) (age_group (cleaned example_work ! 0)))"
    unfolding cleaned_def dropna_example feature_engineering_def Let_def
    by (simp add: example_work_def)
  then have f: "weather (cleaned example_work ! 0) = Some ''Sunny''"
    "traffic (cleaned example_work ! 0) = Some ''Low''"
    "vehicle (cleaned example_work ! 0) = Some ''Bike''"
    "area (cleaned example_work ! 0) = Some ''Urban''"
    "category (cleaned example_work ! 0) = Some ''Food''"
    by (metis extend_fields(3) example_row_def row.select_convs(3),
        metis extend_fields(4) example_row_def row.select_convs(4),
        metis extend_fields(5) example_row_def row.select_convs(5),
        metis extend_fields(8) example_row_def row.select_convs(8),
        metis extend_fields(9) example_row_def row.select_convs(9))
  have a: "cleaned example_work ! 0
     \<in> set (filtered [''Sunny''] [''Low''] [''Bike''] [''Urban''] [''Food''] (cleaned example_work))"
    using filtered_iff_all_five [of "cleaned example_work ! 0" "[''Sunny'']" "[''Low'']" "[''Bike'']" "[''Urban'']" "[''Food'']" "cleaned example_work"]
      mem f by simp
  have b: "cleaned example_work ! 0
     \<notin> set (filtered [''Rainy''] [''Low''] [''Bike''] [''Urban''] [''Food''] (cleaned example_work))"
    using filtered_iff_all_five [of "cleaned example_work ! 0" "[''Rainy'']" "[''Low'']" "[''Bike'']" "[''Urban'']" "[''Food'']" "cleaned example_work"]
      f by simp
  have c: "filtered [''Sunny''] [''Low''] [] [''Urban''] [''Food''] (cleaned example_work) = []"
    using filtered_iff_all_five [of "cleaned example_work ! 0" "[''Sunny'']" "[''Low'']" "[]" "[''Urban'']" "[''Food'']" "cleaned example_work"]
    by (elim conjE)
  from a b c show ?thesis by (intro conjI)
qed


lemma set_filter_vals: "set (filter_vals field work) = {s. Some s \<in> field ` set work}"
  by (auto simp: filter_vals_def set_series_dropna)

lemma make_filter_default:
  "make_filter (\<lambda>label options default. default) col field work = filter_vals field work"
  by (simp add: make_filter_def Let_def)

text \<open>
  C10.  Every record of the filtered view has a weather, a traffic, a vehicle, an area and
  a category that are all present: a missing value is a member of no selection.  So a
  record of the cleaned table with any of the five missing is not in the filtered view,
  whatever is selected in the widgets, and also when every widget is left at its default,
  which is then the sorted list of the distinct present values of its column.
\<close>

theorem filtered_view_no_missing:
  "(\<forall>r \<in> set (filtered weather_sel traffic_sel vehicle_sel area_sel category_sel work).
      weather r \<noteq> None \<and> traffic r \<noteq> None \<and> vehicle r \<noteq> None \<and> area r \<noteq> None \<and> category r \<noteq> None)
   \<and> (\<forall>r \<in> set (filtered_view e work).
      weather r \<noteq> None \<and> traffic r \<noteq> None \<and> vehicle r \<noteq> None \<and> area r \<noteq> None \<and> category r \<noteq> None)
   \<and> (\<forall>r \<in> set work.
        weather r = None \<or> traffic r = None \<or> vehicle r = None \<or> area r = None \<or> category r = None
        \<longrightarrow> r \<notin> set (filtered_view (e\<lparr>multiselect := (\<lambda>label options default. default)\<rparr>) work))
   \<and> set (make_filter (\<lambda>label options default. default) col field work) = {s. Some s \<in> field ` set work}
   \<and> sorted (make_filter (\<lambda>label options default. default) col field work)
   \<and> distinct (make_filter (\<lambda>label options default. default) col field work)"
proof -
  have a: "\<forall>r \<in> set (filtered weather_sel traffic_sel vehicle_sel area_sel category_sel work).
      weather r \<noteq> None \<and> traffic r \<noteq> None \<and> vehicle r \<noteq> None \<and> area r \<noteq> None \<and> category r \<noteq> None"
    using filtered_present by blast
  have b: "weather r \<noteq> None \<and> traffic r \<noteq> None \<and> vehicle r \<noteq> None \<and> area r \<noteq> None \<and> category r \<noteq> None"
    if "r \<in> set (filtered_view e' work)" for r e'
    using that unfolding filtered_view_def Let_def by (rule filtered_present)
  have c: "\<forall>r \<in> set work.
        weather r = None \<or> traffic r = None \<or> vehicle r = None \<or> area r = None \<or> category r = None
        \<longrightarrow> r \<notin> set (filtered_view (e\<lparr>multiselect := (\<lambda>label options default. default)\<rparr>) work)"
    using b by blast
  have d: "set (make_filter (\<lambda>label options default. default) col field work) = {s. Some s \<in> field ` set work}"
    unfolding make_filter_default by (rule set_filter_vals)
  have e: "sorted (make_filter (\<lambda>label options default. default) col field work)"
    unfolding make_filter_default by (simp add: filter_vals_def)
  have f: "distinct (make_filter (\<lambda>label options default. default) col field work)"
    unfolding make_filter_default by (simp add: filter_vals_def)
  from a b c d e f show ?thesis by blast
qed

theorem filtered_view_no_missing_witness:
  "cleaned [example_row 0 10, (example_row 1 20)\<lparr>weather := None\<rparr>] ! 1
     \<in> set (cleaned [example_row 0 10, (example_row 1 20)\<lparr>weather := None\<rparr>])
   \<and> weather (cleaned [example_row 0 10, (example_row 1 20)\<lparr>weather := None\<rparr>] ! 1) = None
   \<and> cleaned [example_row 0 10, (example_row 1 20)\<lparr>weather := None\<rparr>] ! 1
     \<notin> set (filtered_view example_env (cleaned [example_row 0 10, (example_row 1 20)\<lparr>weather := None\<rparr>]))"
proof -
  define W where "W = cleaned [example_row 0 10, (example_row 1 20)\<lparr>weather := None\<rparr>]"
  have d: "dropna [example_row 0 10, (example_row 1 20)\<lparr>weather := None\<rparr>]
           = [example_row 0 10, (example_row 1 20)\<lparr>weather := None\<rparr>]"
    by (simp add: dropna_def example_row_def)
  have len: "length W = 2"
    unfolding W_def cleaned_def d length_feature_engineering by simp
  then have mem: "W ! 1 \<in> set W" by (intro nth_mem) simp
  have "map weather W ! 1 = None"
    unfolding W_def cleaned_def d feature_engineering_def Let_def by simp
  then have w: "weather (W ! 1) = None" using len by simp
  have env: "example_env\<lparr>multiselect := (\<lambda>label options default. default)\<rparr> = example_env"
    by (simp add: example_env_def)
  from filtered_view_no_missing [where work = W and e = example_env] mem w
  have "W ! 1 \<notin> set (filtered_view (example_env\<lparr>multiselect := (\<lambda>label options default. default)\<rparr>) W)"
    by blast
  then have "W ! 1 \<notin> set (filtered_view example_env W)" unfolding env .
  with mem w show ?thesis unfolding W_def by (intro conjI)
qed

subsection \<open>Features and selections\<close>

lemma map_idx_dropna: "distinct (map idx work) \<Longrightarrow> distinct (map idx (dropna work))"
  by (simp add: dropna_def distinct_map_filter)

lemma distinct_idx_cleaned: "distinct (map idx work0) \<Longrightarrow> distinct (map idx (cleaned work0))"
  by (simp add: cleaned_def map_idx_feature_engineering map_idx_dropna)

lemma standardize_idx:
  "standardize tn cm df = Inr work0 \<Longrightarrow> map idx work0 = [0..<length (records df)]"
  by (auto simp: standardize_def comp_def split: sum.splits)

text \<open>
  C9.  The rows of a table read from a file carry distinct row labels.  Take any two
  environments, that is any two choices made in the widgets: a record of the first
  filtered view and a record of the second one that carry the same row label are the same
  record of the cleaned table, with the same late flag and the same age group.  The
  cleaned table, where both are computed, does not take the selections at all.
\<close>

theorem features_same_across_selections:
  assumes "standardize tn cm df = Inr work0"
      and "r1 \<in> set (filtered_view e1 (cleaned work0))"
      and "r2 \<in> set (filtered_view e2 (cleaned work0))"
      and "idx r1 = idx r2"
  shows "late r1 = late r2 \<and> age_group r1 = age_group r2
       \<and> r1 = r2 \<and> r1 \<in> set (cleaned work0)"
proof -
  have "distinct (map idx work0)" using standardize_idx [OF assms(1)] by simp
  then have "distinct (map idx (cleaned work0))" by (rule distinct_idx_cleaned)
  then have inj: "inj_on idx (set (cleaned work0))" by (simp add: distinct_map)
  have m1: "r1 \<in> set (cleaned work0)" and m2: "r2 \<in> set (cleaned work0)"
    using assms(2,3) set_filtered_view by blast+
  with inj assms(4) have "r1 = r2" by (auto dest: inj_onD)
  with m1 show ?thesis by simp
qed


lemma fields_feature_engineering:
  "map weather (feature_engineering work) = map weather work"
  "map traffic (feature_engineering work) = map traffic work"
  "map vehicle (feature_engineering work) = map vehicle work"
  "map area (feature_engineering work) = map area work"
  "map category (feature_engineering work) = map category work"
  by (simp_all add: feature_engineering_def Let_def comp_def)

lemma capitalize_columns:
  "capitalize ''weather'' = ''Weather''"
  "capitalize ''traffic'' = ''Traffic''"
  "capitalize ''vehicle'' = ''Vehicle''"
  "capitalize ''area'' = ''Area''"
  "capitalize ''category'' = ''Category''"
  by code_simp+

lemma standardize_example_full:
  "standardize (to_num example_env) (find_col variants (columns (load_clean example_df_full)))
     (load_clean example_df_full)
   = Inr [example_row 0 10, (example_row 1 20)\<lparr>weather := Some ''Rainy''\<rparr>]"
  by code_simp

lemma sort_example: "sort [''Sunny'', ''Rainy''] = [''Rainy'', ''Sunny'']"
  by code_simp

lemma views_example_full:
  defines "W \<equiv> cleaned [example_row 0 10, (example_row 1 20)\<lparr>weather := Some ''Rainy''\<rparr>]"
  shows "length W = 2"
    and "filtered_view example_env W = W"
    and "filtered_view example_env_rainy W = [W ! 1]"
proof -
  define W0 where "W0 = [example_row 0 10, (example_row 1 20)\<lparr>weather := Some ''Rainy''\<rparr>]"
  have d: "dropna W0 = W0" by (simp add: W0_def dropna_def example_row_def)
  have W: "W = feature_engineering W0"
    unfolding W_def W0_def [symmetric] cleaned_def d ..
  show len: "length W = 2" by (simp add: W length_feature_engineering W0_def)
  have fv: "filter_vals weather W = [''Rainy'', ''Sunny'']"
    "filter_vals traffic W = [''Low'']"
    "filter_vals vehicle W = [''Bike'']"
    "filter_vals area W = [''Urban'']"
    "filter_vals category W = [''Food'']"
    unfolding filter_vals_def W fields_feature_engineering
    by (simp_all add: W0_def example_row_def sort_example)
  have ms: "multiselect example_env = (\<lambda>label options default. default)"
    "multiselect example_env_rainy =
       (\<lambda>label options default. if label = ''Weather'' then [''Rainy''] else default)"
    by (simp_all add: example_env_def example_env_rainy_def)
  have sel1: "make_filter (multiselect example_env) ''weather'' weather W = [''Rainy'', ''Sunny'']"
    "make_filter (multiselect example_env) ''traffic'' traffic W = [''Low'']"
    "make_filter (multiselect example_env) ''vehicle'' vehicle W = [''Bike'']"
    "make_filter (multiselect example_env) ''area'' area W = [''Urban'']"
    "make_filter (multiselect example_env) ''category'' category W = [''Food'']"
    unfolding make_filter_def fv ms by simp_all
  have sel2: "make_filter (multiselect example_env_rainy) ''weather'' weather W = [''Rainy'']"
    "make_filter (multiselect example_env_rainy) ''traffic'' traffic W = [''Low'']"
    "make_filter (multiselect example_env_rainy) ''vehicle'' vehicle W = [''Bike'']"
    "make_filter (multiselect example_env_rainy) ''area'' area W = [''Urban'']"
    "make_filter (multiselect example_env_rainy) ''category'' category W = [''Food'']"
    unfolding make_filter_def fv ms capitalize_columns by simp_all
  define a where "a = W ! 0"
  define b where "b = W ! 1"
  have rows: "W = [a, b]"
    unfolding a_def b_def using len by (cases W; cases "tl W") auto
  have fa: "weather a = Some ''Sunny''" "traffic a = Some ''Low''"
    "vehicle a = Some ''Bike''" "area a = Some ''Urban''" "category a = Some ''Food''"
    unfolding a_def W feature_engineering_def Let_def by (simp_all add: W0_def example_row_def)
  have fb: "weather b = Some ''Rainy''" "traffic b = Some ''Low''"
    "vehicle b = Some ''Bike''" "area b = Some ''Urban''" "category b = Some ''Food''"
    unfolding b_def W feature_engineering_def Let_def by (simp_all add: W0_def example_row_def)
  have "filtered_view example_env W = [a, b]"
    unfolding filtered_view_def Let_def sel1
    by (subst rows) (simp add: filtered_def isin_def fa fb)
  then show "filtered_view example_env W = W"
    using rows by simp
  have "filtered_view example_env_rainy W = [b]"
    unfolding filtered_view_def Let_def sel2
    by (subst rows) (simp add: filtered_def isin_def fa fb)
  then show "filtered_view example_env_rainy W = [W ! 1]"
    unfolding b_def .
qed

theorem features_same_across_selections_witness:
  "standardize (to_num example_env) (find_col variants (columns (load_clean example_df_full)))
     (load_clean example_df_full)
     = Inr [example_row 0 10, (example_row 1 20)\<lparr>weather := Some ''Rainy''\<rparr>]
   \<and> filtered_view example_env (cleaned [example_row 0 10, (example_row 1 20)\<lparr>weather := Some ''Rainy''\<rparr>]) ! 1
       \<in> set (filtered_view example_env (cleaned [example_row 0 10, (example_row 1 20)\<lparr>weather := Some ''Rainy''\<rparr>]))
   \<and> filtered_view example_env_rainy (cleaned [example_row 0 10, (example_row 1 20)\<lparr>weather := Some ''Rainy''\<rparr>]) ! 0
       \<in> set (filtered_view example_env_rainy (cleaned [example_row 0 10, (example_row 1 20)\<lparr>weather := Some ''Rainy''\<rparr>]))
   \<and> idx (filtered_view example_env (cleaned [example_row 0 10, (example_row 1 20)\<lparr>weather := Some ''Rainy''\<rparr>]) ! 1)
       = idx (filtered_view example_env_rainy (cleaned [example_row 0 10, (example_row 1 20)\<lparr>weather := Some ''Rainy''\<rparr>]) ! 0)
   \<and> late (filtered_view example_env (cleaned [example_row 0 10, (example_row 1 20)\<lparr>weather := Some ''Rainy''\<rparr>]) ! 1)
       = late (filtered_view example_env_rainy (cleaned [example_row 0 10, (example_row 1 20)\<lparr>weather := Some ''Rainy''\<rparr>]) ! 0)
   \<and> age_group (filtered_view example_env (cleaned [example_row 0 10, (example_row 1 20)\<lparr>weather := Some ''Rainy''\<rparr>]) ! 1)
       = age_group (filtered_view example_env_rainy (cleaned [example_row 0 10, (example_row 1 20)\<lparr>weather := Some ''Rainy''\<rparr>]) ! 0)"
proof -
  define W0 where "W0 = [example_row 0 10, (example_row 1 20)\<lparr>weather := Some ''Rainy''\<rparr>]"
  define r1 where "r1 = filtered_view example_env (cleaned W0) ! 1"
  define r2 where "r2 = filtered_view example_env_rainy (cleaned W0) ! 0"
  have st: "standardize (to_num example_env) (find_col variants (columns (load_clean example_df_full)))
     (load_clean example_df_full) = Inr W0"
    unfolding W0_def by (rule standardize_example_full)
  note v = views_example_full [folded W0_def]
  have m1: "r1 \<in> set (filtered_view example_env (cleaned W0))"
    unfolding r1_def using v(1,2) by (intro nth_mem) simp
  have m2: "r2 \<in> set (filtered_view example_env_rainy (cleaned W0))"
    unfolding r2_def using v(3) by (intro nth_mem) simp
  have i: "idx r1 = idx r2"
    unfolding r1_def r2_def v(2,3) by simp
  from features_same_across_selections [OF st m1 m2 i]
  have "late r1 = late r2" and "age_group r1 = age_group r2" by simp_all
  with st m1 m2 i show ?thesis
    unfolding r1_def r2_def W0_def by (intro conjI)
qed


subsection \<open>How a run ends\<close>

lemma columns_load_clean: "columns (load_clean df_raw) = map strip (columns df_raw)"
  by (simp add: load_clean_def normalize_missing_def strip_columns_def)

lemma delivery_time_variants:
  "(''delivery_time'', [''Delivery_Time'', ''Delivery Time'', ''Time Taken'', ''delivery_time''])
     \<in> set variants"
  by (simp add: variants_def)

lemma same_spelling_not_Nil:
  assumes "same_spelling h opt" and "strip (lower opt) \<noteq> []"
  shows "h \<noteq> []"
  using assms strip_lower_Nil by (auto simp: same_spelling_def)

lemma truthy_find_col:
  assumes "(key, options) \<in> set variants"
  shows "truthy (col_map_get (find_col variants cols) key) \<longleftrightarrow> first_match options cols \<noteq> None"
proof (cases "first_match options cols")
  case None
  then show ?thesis by (simp add: find_col_variants(2) [OF assms] truthy_def)
next
  case (Some h)
  then obtain opt where "opt \<in> set options" "same_spelling h opt"
    using first_match_Some by blast
  moreover have "strip (lower opt) \<noteq> []"
    using variants_not_blank assms \<open>opt \<in> set options\<close> by blast
  ultimately have "h \<noteq> []" using same_spelling_not_Nil by blast
  with Some show ?thesis by (simp add: find_col_variants(2) [OF assms] truthy_def)
qed

lemma app_None:
  "app e None =
     (page_head @
      [Error ''Dataset not found. Please upload 'Copy of Last mile Delivery Data.csv' to the project folder.''],
      Stopped)"
  by (simp add: app_def)

lemma app_no_delivery_time:
  assumes "\<not> truthy (col_map_get (find_col variants (map strip (columns df_raw))) ''delivery_time'')"
  shows "app e (Some df_raw) =
     (page_head @ [SidebarHeader ''Column Mapping'']
      @ map (\<lambda>(k, v). Mapping k v) (find_col variants (map strip (columns df_raw)))
      @ [Error ''Could not find 'Delivery_Time' column. Please check your CSV header.''],
      Stopped)"
  using assms by (simp add: app_def Let_def columns_load_clean)

lemma app_standardized:
  assumes "truthy (col_map_get (find_col variants (map strip (columns df_raw))) ''delivery_time'')"
  shows "app e (Some df_raw) =
     (case standardize (to_num e) (find_col variants (map strip (columns df_raw))) (load_clean df_raw) of
        Inl err \<Rightarrow>
          (page_head @ [SidebarHeader ''Column Mapping'']
           @ map (\<lambda>(k, v). Mapping k v) (find_col variants (map strip (columns df_raw))),
           Raised err)
      | Inr work0 \<Rightarrow>
          (page_head @ [SidebarHeader ''Column Mapping'']
           @ map (\<lambda>(k, v). Mapping k v) (find_col variants (map strip (columns df_raw)))
           @ dashboard e work0,
           Completed))"
  using assms by (simp add: app_def Let_def columns_load_clean split: sum.splits)

lemma length_positions: "length (positions cols h) = count_list cols h"
proof -
  have "length (positions cols h) = length (filter ((=) h) (map ((!) cols) [0..<length cols]))"
    unfolding positions_def filter_map length_map comp_def
    by (rule arg_cong [where f = length], rule filter_cong) auto
  then show ?thesis by (simp add: map_nth count_list_eq_length_filter)
qed

lemma positions_single: "count_list cols h = 1 \<Longrightarrow> \<exists>i. positions cols h = [i]"
  using length_positions [of cols h] by (cases "positions cols h") auto

lemma source_column_Inr:
  assumes "case src of None \<Rightarrow> True | Some h \<Rightarrow> count_list (columns df) h = 1"
  shows "\<exists>c. source_column df src = Inr c"
proof (cases src)
  case None
  then show ?thesis by (simp add: source_column_def)
next
  case (Some h)
  with assms obtain i where "positions (columns df) h = [i]"
    using positions_single by fastforce
  with Some show ?thesis by (simp add: source_column_def)
qed

lemma col_map_get_cases:
  "case col_map_get cm key of None \<Rightarrow> True | Some h \<Rightarrow> (key, Some h) \<in> set cm"
  by (auto simp: col_map_get_def dest: map_of_SomeD split: option.splits)

lemma unambiguous_source_column:
  assumes "unambiguous (columns df)"
  shows "\<exists>c. source_column df (col_map_get (find_col variants (columns df)) key) = Inr c"
proof (rule source_column_Inr)
  show "case col_map_get (find_col variants (columns df)) key of
          None \<Rightarrow> True | Some h \<Rightarrow> count_list (columns df) h = 1"
    using col_map_get_cases [where cm = "find_col variants (columns df)" and key = key] assms
    by (fastforce simp: unambiguous_def split: option.splits)
qed

lemma unambiguous_standardize:
  assumes "unambiguous (columns df)"
  shows "\<exists>work0. standardize tn (find_col variants (columns df)) df = Inr work0"
proof -
  note u = unambiguous_source_column [OF assms]
  from u [of "''delivery_time''"] obtain c1 where c1:
    "source_column df (col_map_get (find_col variants (columns df)) ''delivery_time'') = Inr c1" ..
  from u [of "''weather''"] obtain c2 where c2:
    "source_column df (col_map_get (find_col variants (columns df)) ''weather'') = Inr c2" ..
  from u [of "''traffic''"] obtain c3 where c3:
    "source_column df (col_map_get (find_col variants (columns df)) ''traffic'') = Inr c3" ..
  from u [of "''vehicle''"] obtain c4 where c4:
    "source_column df (col_map_get (find_col variants (columns df)) ''vehicle'') = Inr c4" ..
  from u [of "''agent_age''"] obtain c5 where c5:
    "source_column df (col_map_get (find_col variants (columns df)) ''agent_age'') = Inr c5" ..
  from u [of "''agent_rating''"] obtain c6 where c6:
    "source_column df (col_map_get (find_col variants (columns df)) ''agent_rating'') = Inr c6" ..
  from u [of "''area''"] obtain c7 where c7:
    "source_column df (col_map_get (find_col variants (columns df)) ''area'') = Inr c7" ..
  from u [of "''category''"] obtain c8 where c8:
    "source_column df (col_map_get (find_col variants (columns df)) ''category'') = Inr c8" ..
  show ?thesis
    unfolding standardize_def c1 c2 c3 c4 c5 c6 c7 c8 by simp
qed

lemma std_few: "length s \<le> 1 \<Longrightarrow> std s = None"
  using length_series_dropna [of s] by (simp add: std_def Let_def)

lemma late_few:
  assumes "length (dropna work0) \<le> 1" and "r \<in> set (cleaned work0)"
  shows "late r = 0"
proof -
  have "std (map delivery_time (dropna work0)) = None"
    using assms(1) by (intro std_few) simp
  then have "\<not> nan_gt (delivery_time r)
      (nan_add (mean (map delivery_time (dropna work0))) (std (map delivery_time (dropna work0))))"
    by (simp add: nan_gt_def nan_add_def split: option.splits)
  then show ?thesis
    using late_feature_engineering [of r "dropna work0"] assms(2) by (simp add: cleaned_def)
qed


text \<open>
  C8.  When at most one record survives the row drop, the standard deviation of the
  delivery times is missing, no record of the cleaned table is flagged late, and a run
  that has built its table of standardised rows reaches the end of the script: nothing
  after that point raises, also with a missing mean and a missing standard deviation.
\<close>

theorem few_records_none_late:
  assumes "length (dropna work0) \<le> 1"
  shows "(\<forall>r \<in> set (cleaned work0). late r = 0)
       \<and> std (map delivery_time (dropna work0)) = None
       \<and> (dropna work0 = [] \<longrightarrow> mean (map delivery_time (dropna work0)) = None)
       \<and> (truthy (col_map_get (find_col variants (map strip (columns df_raw))) ''delivery_time'')
            \<and> standardize (to_num e) (find_col variants (map strip (columns df_raw))) (load_clean df_raw)
                = Inr work0
          \<longrightarrow> snd (app e (Some df_raw)) = Completed)"
proof -
  have a: "\<forall>r \<in> set (cleaned work0). late r = 0"
    using late_few [OF assms] by blast
  have b: "std (map delivery_time (dropna work0)) = None"
    using assms by (intro std_few) simp
  have c: "dropna work0 = [] \<longrightarrow> mean (map delivery_time (dropna work0)) = None"
    by (simp add: mean_def)
  have d: "truthy (col_map_get (find_col variants (map strip (columns df_raw))) ''delivery_time'')
            \<and> standardize (to_num e) (find_col variants (map strip (columns df_raw))) (load_clean df_raw)
                = Inr work0
          \<longrightarrow> snd (app e (Some df_raw)) = Completed"
    by (simp add: app_standardized)
  from a b c d show ?thesis by (intro conjI)
qed

lemma truthy_example:
  "truthy (col_map_get (find_col variants (map strip (columns example_df))) ''delivery_time'')"
  by code_simp

lemma standardize_example:
  "standardize (to_num example_env) (find_col variants (map strip (columns example_df)))
     (load_clean example_df)
   = Inr [(example_row 0 10)\<lparr>traffic := None, vehicle := None, agent_age := None,
                               agent_rating := None, area := None, category := None\<rparr>,
          \<lparr>idx = 1, delivery_time = None, weather = None, traffic = None, vehicle = None,
           agent_age = None, agent_rating = None, area = None, category = None\<rparr>]"
  by code_simp

theorem few_records_none_late_witness:
  "length (dropna [(example_row 0 10)\<lparr>traffic := None, vehicle := None, agent_age := None,
                               agent_rating := None, area := None, category := None\<rparr>,
          \<lparr>idx = 1, delivery_time = None, weather = None, traffic = None, vehicle = None,
           agent_age = None, agent_rating = None, area = None, category = None\<rparr>]) \<le> 1
   \<and> map late (cleaned [(example_row 0 10)\<lparr>traffic := None, vehicle := None, agent_age := None,
                               agent_rating := None, area := None, category := None\<rparr>,
          \<lparr>idx = 1, delivery_time = None, weather = None, traffic = None, vehicle = None,
           agent_age = None, agent_rating = None, area = None, category = None\<rparr>]) = [0]
   \<and> snd (app example_env (Some example_df)) = Completed"
proof -
  define W0 where "W0 = [(example_row 0 10)\<lparr>traffic := None, vehicle := None, agent_age := None,
                               agent_rating := None, area := None, category := None\<rparr>,
          \<lparr>idx = 1, delivery_time = None, weather = None, traffic = None, vehicle = None,
           agent_age = None, agent_rating = None, area = None, category = None\<rparr>]"
  have d: "length (dropna W0) = 1"
    by (simp add: W0_def dropna_def example_row_def)
  then have few: "length (dropna W0) \<le> 1" by simp
  note inst = few_records_none_late [OF few, of example_df example_env]
  have len: "length (cleaned W0) = 1"
    by (simp add: cleaned_def length_feature_engineering d)
  have "\<forall>l \<in> set (map late (cleaned W0)). l = 0"
    using inst by simp
  then have l: "map late (cleaned W0) = [0]"
    using len by (cases "cleaned W0") auto
  have c: "snd (app example_env (Some example_df)) = Completed"
    using inst truthy_example standardize_example [folded W0_def] by blast
  from few l c show ?thesis unfolding W0_def by (intro conjI)
qed

subsection \<open>Metrics of an empty view\<close>

lemma metrics_Nil:
  "metrics fx [] =
     [Metric ''Avg Delivery Time (min)'' ''nan'',
      Metric ''Avg Agent Rating'' ''nan'',
      Metric ''Late Deliveries (%)'' ''nan%'']"
  by (simp add: metrics_def mean_def format_f_def nan_mul_def)

lemma filtered_view_none: "filtered_view example_env_none work = []"
  by (simp add: filtered_view_def make_filter_def Let_def example_env_none_def example_env_def
                filtered_def isin_def split: option.splits)

lemma truthy_example_full:
  "truthy (col_map_get (find_col variants (map strip (columns example_df_full))) ''delivery_time'')"
  by code_simp

lemma to_num_example_none: "to_num example_env_none = to_num example_env"
  by (simp add: example_env_none_def)

lemma set_metrics_dashboard: "set (metrics (fixed e) (filtered_view e (cleaned work0))) \<subseteq> set (dashboard e work0)"
  by (auto simp: dashboard_def Let_def)

text \<open>
  C2 (what the script does).  On an empty filtered view the three metrics are formatted
  from missing means, and Python formats a missing float as \<open>nan\<close>: the page shows \<open>nan\<close>,
  \<open>nan\<close> and \<open>nan%\<close>.  So it is on the two-delivery example file once the user has emptied
  the widgets: the run completes and the three \<open>nan\<close> metrics are on the page.
\<close>

theorem metrics_empty_view_nan:
  "metrics fx [] =
     [Metric ''Avg Delivery Time (min)'' ''nan'',
      Metric ''Avg Agent Rating'' ''nan'',
      Metric ''Late Deliveries (%)'' ''nan%'']
   \<and> snd (app example_env_none (Some example_df_full)) = Completed
   \<and> Metric ''Avg Delivery Time (min)'' ''nan'' \<in> set (fst (app example_env_none (Some example_df_full)))
   \<and> Metric ''Avg Agent Rating'' ''nan'' \<in> set (fst (app example_env_none (Some example_df_full)))
   \<and> Metric ''Late Deliveries (%)'' ''nan%'' \<in> set (fst (app example_env_none (Some example_df_full)))"
proof -
  define W0 where "W0 = [example_row 0 10, (example_row 1 20)\<lparr>weather := Some ''Rainy''\<rparr>]"
  have st: "standardize (to_num example_env_none)
              (find_col variants (map strip (columns example_df_full))) (load_clean example_df_full)
            = Inr W0"
    unfolding W0_def to_num_example_none
    using standardize_example_full by (simp add: columns_load_clean)
  have app: "app example_env_none (Some example_df_full) =
     (page_head @ [SidebarHeader ''Column Mapping'']
      @ map (\<lambda>(k, v). Mapping k v) (find_col variants (map strip (columns example_df_full)))
      @ dashboard example_env_none W0,
      Completed)"
    unfolding app_standardized [OF truthy_example_full] st by simp
  have "set (metrics (fixed example_env_none) []) \<subseteq> set (dashboard example_env_none W0)"
    using set_metrics_dashboard [of example_env_none W0] by (simp add: filtered_view_none)
  then have "set (metrics (fixed example_env_none) [])
               \<subseteq> set (fst (app example_env_none (Some example_df_full)))"
    unfolding app by auto
  then have m: "Metric ''Avg Delivery Time (min)'' ''nan'' \<in> set (fst (app example_env_none (Some example_df_full)))"
    "Metric ''Avg Agent Rating'' ''nan'' \<in> set (fst (app example_env_none (Some example_df_full)))"
    "Metric ''Late Deliveries (%)'' ''nan%'' \<in> set (fst (app example_env_none (Some example_df_full)))"
    unfolding metrics_Nil by simp_all
  have c: "snd (app example_env_none (Some example_df_full)) = Completed"
    unfolding app by simp
  from metrics_Nil c m show ?thesis by (intro conjI)
qed


subsection \<open>The two stops\<close>

lemma app_Stopped_iff:
  "snd (app e file) = Stopped \<longleftrightarrow>
     file = None \<or>
     (\<exists>df_raw. file = Some df_raw \<and>
        \<not> truthy (col_map_get (find_col variants (map strip (columns df_raw))) ''delivery_time''))"
proof (cases "file")
  case None
  then show ?thesis by (simp add: app_None)
next
  case (Some df_raw)
  show ?thesis
  proof (cases "truthy (col_map_get (find_col variants (map strip (columns df_raw))) ''delivery_time'')")
    case True
    then show ?thesis
      unfolding Some app_standardized [OF True] by (simp split: sum.splits)
  next
    case False
    then show ?thesis
      unfolding Some app_no_delivery_time [OF False] by simp
  qed
qed

lemma app_Completed:
  assumes "truthy (col_map_get (find_col variants (map strip (columns df_raw))) ''delivery_time'')"
      and "unambiguous (map strip (columns df_raw))"
  shows "\<exists>work0.
           standardize (to_num e) (find_col variants (map strip (columns df_raw))) (load_clean df_raw)
             = Inr work0
         \<and> app e (Some df_raw) =
             (page_head @ [SidebarHeader ''Column Mapping'']
              @ map (\<lambda>(k, v). Mapping k v) (find_col variants (map strip (columns df_raw)))
              @ dashboard e work0,
              Completed)"
proof -
  have "unambiguous (columns (load_clean df_raw))"
    using assms(2) by (simp add: columns_load_clean)
  from unambiguous_standardize [OF this, of "to_num e"]
  obtain work0 where
    "standardize (to_num e) (find_col variants (map strip (columns df_raw))) (load_clean df_raw)
       = Inr work0"
    by (auto simp: columns_load_clean)
  then show ?thesis
    unfolding app_standardized [OF assms(1)] by simp
qed

text \<open>
  C7 (as the script has it).  The script stops itself in exactly two cases: the file is
  absent, or no header has a spelling accepted for \<open>delivery_time\<close>.  In the first case the
  page is the title, the caption and the error message; in the second it is the title, the
  caption, the column mapping shown in the sidebar, and the error message.  The message is
  the last thing rendered, and no data summary, filter, metric or chart is.  When a
  delivery-time header is found and the headers are unambiguous, the standardised table is
  built and the run reaches the end of the script, the dashboard rendered after the column
  mapping.
\<close>

theorem app_stops_in_two_cases:
  "app e None =
     (page_head @
      [Error ''Dataset not found. Please upload 'Copy of Last mile Delivery Data.csv' to the project folder.''],
      Stopped)
   \<and> (first_match [''Delivery_Time'', ''Delivery Time'', ''Time Taken'', ''delivery_time'']
         (map strip (columns df_raw)) = None
      \<longrightarrow> app e (Some df_raw) =
            (page_head @ [SidebarHeader ''Column Mapping'']
             @ map (\<lambda>(k, v). Mapping k v) (find_col variants (map strip (columns df_raw)))
             @ [Error ''Could not find 'Delivery_Time' column. Please check your CSV header.''],
             Stopped))
   \<and> (snd (app e file) = Stopped \<longleftrightarrow>
        file = None \<or>
        (\<exists>df. file = Some df \<and>
           first_match [''Delivery_Time'', ''Delivery Time'', ''Time Taken'', ''delivery_time'']
             (map strip (columns df)) = None))
   \<and> (first_match [''Delivery_Time'', ''Delivery Time'', ''Time Taken'', ''delivery_time'']
         (map strip (columns df_raw)) \<noteq> None
       \<and> unambiguous (map strip (columns df_raw))
      \<longrightarrow> (\<exists>work0.
             standardize (to_num e) (find_col variants (map strip (columns df_raw))) (load_clean df_raw)
               = Inr work0
             \<and> app e (Some df_raw) =
                 (page_head @ [SidebarHeader ''Column Mapping'']
                  @ map (\<lambda>(k, v). Mapping k v) (find_col variants (map strip (columns df_raw)))
                  @ dashboard e work0,
                  Completed)))"
proof -
  note t = truthy_find_col [OF delivery_time_variants]
  have a: "app e None =
     (page_head @
      [Error ''Dataset not found. Please upload 'Copy of Last mile Delivery Data.csv' to the project folder.''],
      Stopped)"
    by (rule app_None)
  have b: "first_match [''Delivery_Time'', ''Delivery Time'', ''Time Taken'', ''delivery_time'']
         (map strip (columns df_raw)) = None
      \<longrightarrow> app e (Some df_raw) =
            (page_head @ [SidebarHeader ''Column Mapping'']
             @ map (\<lambda>(k, v). Mapping k v) (find_col variants (map strip (columns df_raw)))
             @ [Error ''Could not find 'Delivery_Time' column. Please check your CSV header.''],
             Stopped)"
    using app_no_delivery_time [of df_raw e] t [of "map strip (columns df_raw)"] by blast
  have c: "snd (app e file) = Stopped \<longleftrightarrow>
        file = None \<or>
        (\<exists>df. file = Some df \<and>
           first_match [''Delivery_Time'', ''Delivery Time'', ''Time Taken'', ''delivery_time'']
             (map strip (columns df)) = None)"
    unfolding app_Stopped_iff t by simp
  have d: "first_match [''Delivery_Time'', ''Delivery Time'', ''Time Taken'', ''delivery_time'']
         (map strip (columns df_raw)) \<noteq> None
       \<and> unambiguous (map strip (columns df_raw))
      \<longrightarrow> (\<exists>work0.
             standardize (to_num e) (find_col variants (map strip (columns df_raw))) (load_clean df_raw)
               = Inr work0
             \<and> app e (Some df_raw) =
                 (page_head @ [SidebarHeader ''Column Mapping'']
                  @ map (\<lambda>(k, v). Mapping k v) (find_col variants (map strip (columns df_raw)))
                  @ dashboard e work0,
                  Completed))"
    using app_Completed [of df_raw e] t [of "map strip (columns df_raw)"] by blast
  from a b c d show ?thesis by (intro conjI)
qed

lemma example_no_time_absent:
  "first_match [''Delivery_Time'', ''Delivery Time'', ''Time Taken'', ''delivery_time'']
     (map strip (columns example_df_no_time)) = None"
  by code_simp

lemma example_full_present:
  "first_match [''Delivery_Time'', ''Delivery Time'', ''Time Taken'', ''delivery_time'']
     (map strip (columns example_df_full)) = Some ''Time Taken''"
  by code_simp

lemma example_full_unambiguous: "unambiguous (map strip (columns example_df_full))"
  by code_simp

theorem app_stops_in_two_cases_witness:
  "first_match [''Delivery_Time'', ''Delivery Time'', ''Time Taken'', ''delivery_time'']
     (map strip (columns example_df_no_time)) = None
   \<and> snd (app example_env (Some example_df_no_time)) = Stopped
   \<and> first_match [''Delivery_Time'', ''Delivery Time'', ''Time Taken'', ''delivery_time'']
       (map strip (columns example_df_full)) \<noteq> None
   \<and> unambiguous (map strip (columns example_df_full))
   \<and> snd (app example_env (Some example_df_full)) = Completed"
proof -
  note i1 = app_stops_in_two_cases [of example_env example_df_no_time "Some example_df_no_time"]
  note i2 = app_stops_in_two_cases [of example_env example_df_full "Some example_df_full"]
  have p: "first_match [''Delivery_Time'', ''Delivery Time'', ''Time Taken'', ''delivery_time'']
       (map strip (columns example_df_full)) \<noteq> None"
    by (simp add: example_full_present)
  have s: "snd (app example_env (Some example_df_no_time)) = Stopped"
    using i1 example_no_time_absent by simp
  have c: "snd (app example_env (Some example_df_full)) = Completed"
    using i2 p example_full_unambiguous by auto
  from example_no_time_absent s p example_full_unambiguous c show ?thesis by (intro conjI)
qed

lemma find_col_example_no_time:
  "find_col variants (map strip (columns example_df_no_time)) =
     [(''delivery_time'', None), (''weather'', Some ''Weather''), (''traffic'', None),
      (''vehicle'', None), (''agent_age'', None), (''agent_rating'', None), (''area'', None),
      (''category'', None)]"
  by code_simp

lemma find_col_example_twice:
  "find_col variants (map strip (columns example_df_twice)) =
     [(''delivery_time'', Some ''Delivery_Time''), (''weather'', None), (''traffic'', None),
      (''vehicle'', None), (''agent_age'', None), (''agent_rating'', None), (''area'', None),
      (''category'', None)]"
  by code_simp

lemma standardize_example_twice:
  "standardize (to_num example_env) (find_col variants (map strip (columns example_df_twice)))
     (load_clean example_df_twice) = Inl ValueError"
  by code_simp

lemma truthy_example_twice:
  "truthy (col_map_get (find_col variants (map strip (columns example_df_twice))) ''delivery_time'')"
  by code_simp

lemma not_truthy_example_no_time:
  "\<not> truthy (col_map_get (find_col variants (map strip (columns example_df_no_time))) ''delivery_time'')"
  by code_simp

text \<open>
  C7 as stated fails twice.  On a file with no delivery-time column the page is not the
  message alone: the title, the caption and the eight lines of the column mapping are
  rendered before it.  And on a file with the headers \<open>Delivery_Time\<close> and
  \<open> Delivery_Time\<close> the file is present and the delivery-time field is resolved, yet the run
  neither stops itself nor reaches the end: the two headers are one name once stripped, and
  filling \<open>work\<close> raises \<open>ValueError\<close>.
\<close>

theorem app_two_fatal_counterexample:
  "app example_env (Some example_df_no_time) =
     ([Title ''Last-Mile Delivery Analytics Dashboard'',
       Caption ''IBCP - AI Career-Related Study | FA2 Project by Abhinav Chanakya'',
       SidebarHeader ''Column Mapping'',
       Mapping ''delivery_time'' None, Mapping ''weather'' (Some ''Weather''),
       Mapping ''traffic'' None, Mapping ''vehicle'' None, Mapping ''agent_age'' None,
       Mapping ''agent_rating'' None, Mapping ''area'' None, Mapping ''category'' None,
       Error ''Could not find 'Delivery_Time' column. Please check your CSV header.''],
      Stopped)
   \<and> col_map_get (find_col variants (map strip (columns example_df_twice))) ''delivery_time''
       = Some ''Delivery_Time''
   \<and> snd (app example_env (Some example_df_twice)) = Raised ValueError"
proof -
  have a: "app example_env (Some example_df_no_time) =
     ([Title ''Last-Mile Delivery Analytics Dashboard'',
       Caption ''IBCP - AI Career-Related Study | FA2 Project by Abhinav Chanakya'',
       SidebarHeader ''Column Mapping'',
       Mapping ''delivery_time'' None, Mapping ''weather'' (Some ''Weather''),
       Mapping ''traffic'' None, Mapping ''vehicle'' None, Mapping ''agent_age'' None,
       Mapping ''agent_rating'' None, Mapping ''area'' None, Mapping ''category'' None,
       Error ''Could not find 'Delivery_Time' column. Please check your CSV header.''],
      Stopped)"
    unfolding app_no_delivery_time [OF not_truthy_example_no_time] find_col_example_no_time
    by (simp add: page_head_def)
  have b: "col_map_get (find_col variants (map strip (columns example_df_twice))) ''delivery_time''
       = Some ''Delivery_Time''"
    unfolding find_col_example_twice by (simp add: col_map_get_def)
  have c: "snd (app example_env (Some example_df_twice)) = Raised ValueError"
    by (simp only: app_standardized [OF truthy_example_twice] standardize_example_twice sum.case)
       simp
  from a b c show ?thesis by (intro conjI)
qed


end
